theory Spec2Isabelle
  imports Main
begin

section \<open>Values of the host page\<close>

text \<open>
  An instance field of the JavaScript object is absent (\<open>undefined\<close>), \<open>null\<close>, or holds a
  reference. The constructor of \<open>NoSleepJs\<close> populates only the fields of the branch it
  takes, so the three cases are kept apart.
\<close>

datatype 'a field = Undefined | Null | Ref 'a

text \<open>An error object of the platform: its classification (\<open>name\<close>) and its message.\<close>

record js_error =
  err_name :: string
  err_message :: string

text \<open>
  The platform's answer to the one request that \<open>enable\<close> awaits
  (\<open>navigator.wakeLock.request\<close> or the media element's \<open>play\<close>). The continuation of the
  \<open>await\<close> runs as soon as the answer is there: a call of \<open>enable\<close> is one step.
\<close>

datatype response = Resolve | Reject js_error

datatype console_entry =
    Console_log string
  | Console_warn string
  | Console_error string
  | Console_error_with string js_error

text \<open>What the legacy timer does to the page, in the order in which it is issued.\<close>

datatype effect = Navigate string | Stop_loading

text \<open>
  A wake-lock sentinel handed out by the platform: whether it has been released, and
  whether \<open>_onWakeLockRelease\<close> is registered for its \<open>release\<close> event.
\<close>

record sentinel =
  released :: bool
  release_listener :: bool

text \<open>
  The page around the instance. \<open>wakeLock_in_navigator\<close> is the answer of
  \<open>"wakeLock" in navigator\<close>, \<open>old_ios\<close> the answer of \<open>isOldIOS()\<close>, \<open>hidden\<close> is
  \<open>document.hidden\<close>, \<open>href\<close> is \<open>window.location.href\<close>. A sentinel is named by its
  position in \<open>sentinels\<close>; \<open>intervals\<close> holds the running recurring timers with their
  period in milliseconds, \<open>interval_count\<close> the number of \<open>setInterval\<close> calls so far.
\<close>

record browser =
  wakeLock_in_navigator :: bool
  old_ios :: bool
  hidden :: bool
  href :: string
  sentinels :: "sentinel list"
  intervals :: "(nat \<times> nat) list"
  interval_count :: nat
  playing :: bool
  metadata_listener :: bool
  visibility_listening :: bool
  console :: "console_entry list"
  effects :: "effect list"

text \<open>The instance: \<open>wakeLock\<close> is the field \<open>_wakeLock\<close>.\<close>

record NoSleepJs =
  enabled :: bool
  wakeLock :: "nat field"
  visibilityListener :: "unit field"
  noSleepTimer :: "nat field"
  noSleepElement :: "unit field"

type_synonym state = "browser \<times> NoSleepJs"

section \<open>The platform\<close>

definition console_put :: "console_entry \<Rightarrow> browser \<Rightarrow> browser" where
  "console_put e b = b\<lparr>console := console b @ [e]\<rparr>"

definition isNativeWakeLockSupported :: "browser \<Rightarrow> bool" where
  "isNativeWakeLockSupported b = wakeLock_in_navigator b"

definition isOldIOS :: "browser \<Rightarrow> bool" where
  \<comment> \<open>Modelled from the spec: \<open>detect.js\<close> is not among the sources; the answer of the
     legacy-mobile predicate is a fact of the environment.\<close>
  "isOldIOS b = old_ios b"

definition wakeLock_request :: "browser \<Rightarrow> nat \<times> browser" where
  \<comment> \<open>A granted \<open>navigator.wakeLock.request("screen")\<close>: a fresh, active sentinel.\<close>
  "wakeLock_request b =
     (length (sentinels b),
      b\<lparr>sentinels := sentinels b @ [\<lparr>released = False, release_listener = False\<rparr>]\<rparr>)"

definition addReleaseListener :: "nat \<Rightarrow> browser \<Rightarrow> browser" where
  "addReleaseListener i b =
     (if i < length (sentinels b)
      then b\<lparr>sentinels := (sentinels b)[i := (sentinels b ! i)\<lparr>release_listener := True\<rparr>]\<rparr>
      else b)"

definition onWakeLockRelease :: "browser \<Rightarrow> browser" where
  "onWakeLockRelease b = console_put (Console_log ''Wake Lock released.'') b"

definition sentinel_release :: "nat \<Rightarrow> browser \<Rightarrow> browser" where
  \<comment> \<open>The sentinel stops holding the lock and its \<open>release\<close> event reaches the registered
     handler; releasing a released sentinel does nothing. The same happens whether
     \<open>release()\<close> is called or the platform takes the lock away.\<close>
  "sentinel_release i b =
     (if i < length (sentinels b) \<and> \<not> released (sentinels b ! i)
      then (let b1 = b\<lparr>sentinels := (sentinels b)[i := (sentinels b ! i)\<lparr>released := True\<rparr>]\<rparr>
            in if release_listener (sentinels b ! i) then onWakeLockRelease b1 else b1)
      else b)"

definition setInterval :: "nat \<Rightarrow> browser \<Rightarrow> nat \<times> browser" where
  \<comment> \<open>Timer identifiers are positive.\<close>
  "setInterval period b =
     (Suc (interval_count b),
      b\<lparr>interval_count := Suc (interval_count b),
        intervals := intervals b @ [(Suc (interval_count b), period)]\<rparr>)"

definition clearInterval :: "nat \<Rightarrow> browser \<Rightarrow> browser" where
  "clearInterval i b = b\<lparr>intervals := filter (\<lambda>t. fst t \<noteq> i) (intervals b)\<rparr>"

definition type_error :: "string \<Rightarrow> js_error" where
  \<comment> \<open>Reading property \<open>p\<close> of \<open>undefined\<close>: the name is \<open>TypeError\<close> in every engine, the
     message is the one of V8, with the property name in single quotes.\<close>
  "type_error p =
     \<lparr>err_name = ''TypeError'',
      err_message =
        ''Cannot read properties of undefined (reading '' @ [CHR 0x27] @ p @ [CHR 0x27] @ '')''\<rparr>"

section \<open>The collaborators\<close>

definition VisibilityListener_new :: "browser \<Rightarrow> browser" where
  \<comment> \<open>Modelled from the spec: \<open>visibility-listener.js\<close> is not among the sources. The
     notifier subscribes its callback to the transitions in which the page becomes
     visible.\<close>
  "VisibilityListener_new b = b\<lparr>visibility_listening := True\<rparr>"

definition removeListeners :: "browser \<Rightarrow> browser" where
  \<comment> \<open>Modelled from the spec: removes all registered listeners, idempotently.\<close>
  "removeListeners b = b\<lparr>visibility_listening := False\<rparr>"

definition setMetadataListener :: "browser \<Rightarrow> browser" where
  \<comment> \<open>Modelled from the spec: \<open>no-sleep-element.js\<close> is not among the sources. Arranges
     that looping restarts once the media surface is ready.\<close>
  "setMetadataListener b = b\<lparr>metadata_listener := True\<rparr>"

definition play :: "response \<Rightarrow> browser \<Rightarrow> browser" where
  \<comment> \<open>Modelled from the spec: starts playback when the platform allows it; a refused
     request leaves the surface as it was.\<close>
  "play r b = (case r of Resolve \<Rightarrow> b\<lparr>playing := True\<rparr> | Reject err \<Rightarrow> b)"

definition pause :: "browser \<Rightarrow> browser" where
  \<comment> \<open>Modelled from the spec: stops playback; always safe to call.\<close>
  "pause b = b\<lparr>playing := False\<rparr>"

section \<open>The class NoSleepJs\<close>

definition constructor :: "browser \<Rightarrow> state" where
  "constructor b =
     (let this = \<lparr>enabled = False, wakeLock = Undefined, visibilityListener = Undefined,
                  noSleepTimer = Undefined, noSleepElement = Undefined\<rparr>
      in if isNativeWakeLockSupported b
         then (VisibilityListener_new b, this\<lparr>wakeLock := Null, visibilityListener := Ref ()\<rparr>)
         else if isOldIOS b
         then (b, this\<lparr>noSleepTimer := Null\<rparr>)
         else (setMetadataListener b, this\<lparr>noSleepElement := Ref ()\<rparr>))"

definition isEnabled :: "NoSleepJs \<Rightarrow> bool" where
  "isEnabled this = enabled this"

definition disable :: "state \<Rightarrow> js_error option \<times> state" where
  "disable s =
     (case s of (b, this) \<Rightarrow>
        if isNativeWakeLockSupported b then
          (let b1 = (case wakeLock this of Ref i \<Rightarrow> sentinel_release i b | _ \<Rightarrow> b);
               this1 = this\<lparr>wakeLock := Null\<rparr>;
               b2 = (case visibilityListener this of Ref l \<Rightarrow> removeListeners b1 | _ \<Rightarrow> b1)
           in (None, b2, this1\<lparr>enabled := False\<rparr>))
        else if isOldIOS b then
          (case noSleepTimer this of
             Ref i \<Rightarrow>
               if i \<noteq> 0
               then (None,
                     clearInterval i
                       (console_put (Console_warn ''NoSleep disabled for older iOS devices.'') b),
                     this\<lparr>noSleepTimer := Null, enabled := False\<rparr>)
               else (None, b, this\<lparr>enabled := False\<rparr>)
           | _ \<Rightarrow> (None, b, this\<lparr>enabled := False\<rparr>))
        else
          (case noSleepElement this of
             Ref el \<Rightarrow> (None, pause b, this\<lparr>enabled := False\<rparr>)
           | _ \<Rightarrow> (Some (type_error ''pause''), b, this)))"

definition noSleepTick :: "browser \<Rightarrow> browser" where
  \<comment> \<open>The callback given to \<open>setInterval\<close>; \<open>split("#")[0]\<close> is the text before the
     first \<open>#\<close>. The zero-delay \<open>setTimeout(window.stop, 0)\<close> is the next thing to run.\<close>
  "noSleepTick b =
     (if \<not> hidden b
      then (let url = takeWhile (\<lambda>c. c \<noteq> CHR ''#'') (href b)
            in b\<lparr>href := url, effects := effects b @ [Navigate url, Stop_loading]\<rparr>)
      else b)"

definition enableOldIOS :: "state \<Rightarrow> js_error option \<times> state" where
  "enableOldIOS s =
     (case disable s of
        (Some err, s1) \<Rightarrow> (Some err, s1)
      | (None, b1, this1) \<Rightarrow>
          (let b2 = console_put
                      (Console_warn
                         ''NoSleep enabled for older iOS devices. This can interrupt active network requests.'')
                      b1;
               (i, b3) = setInterval 15000 b2
           in (None, b3, this1\<lparr>noSleepTimer := Ref i, enabled := True\<rparr>)))"

definition enableVideoPlayback :: "response \<Rightarrow> state \<Rightarrow> js_error option \<times> state" where
  "enableVideoPlayback r s =
     (case s of (b, this) \<Rightarrow>
        (case noSleepElement this of
           Ref el \<Rightarrow>
             (case r of
                Resolve \<Rightarrow> (None, play Resolve b, this\<lparr>enabled := True\<rparr>)
              | Reject err \<Rightarrow>
                  (Some err,
                   console_put (Console_error_with ''Failed to start video playback:'' err)
                     (play (Reject err) b),
                   this\<lparr>enabled := False\<rparr>))
         | _ \<Rightarrow>
             (let err = type_error ''play''
              in (Some err,
                  console_put (Console_error_with ''Failed to start video playback:'' err) b,
                  this\<lparr>enabled := False\<rparr>))))"

definition enableWakeLock :: "response \<Rightarrow> state \<Rightarrow> js_error option \<times> state" where
  \<comment> \<open>The \<open>try\<close>/\<open>catch\<close> of the first branch of \<open>enable\<close>.\<close>
  "enableWakeLock r s =
     (case s of (b, this) \<Rightarrow>
        (case r of
           Resolve \<Rightarrow>
             (let (i, b1) = wakeLock_request b;
                  this1 = this\<lparr>wakeLock := Ref i\<rparr>;
                  this2 = this1\<lparr>enabled := True\<rparr>;
                  b2 = console_put (Console_log ''Wake Lock active.'') b1;
                  b3 = addReleaseListener i b2
              in (None, b3, this2))
         | Reject err \<Rightarrow>
             (Some err,
              console_put (Console_error (err_name err @ '', '' @ err_message err)) b,
              this\<lparr>enabled := False\<rparr>)))"

definition enable :: "response \<Rightarrow> state \<Rightarrow> js_error option \<times> state" where
  "enable r s =
     (if isNativeWakeLockSupported (fst s) then enableWakeLock r s
      else if isOldIOS (fst s) then enableOldIOS s
      else enableVideoPlayback r s)"

section \<open>Events of the page\<close>

definition platform_release :: "nat \<Rightarrow> state \<Rightarrow> state" where
  \<comment> \<open>The platform takes the lock of sentinel \<open>i\<close> away.\<close>
  "platform_release i s = (sentinel_release i (fst s), snd s)"

definition interval_tick :: "nat \<Rightarrow> state \<Rightarrow> state" where
  \<comment> \<open>The period of timer \<open>i\<close> has elapsed; a cleared timer no longer fires.\<close>
  "interval_tick i s =
     (if i \<in> fst ` set (intervals (fst s)) then (noSleepTick (fst s), snd s) else s)"

definition visibility_change :: "bool \<Rightarrow> response \<Rightarrow> state \<Rightarrow> state" where
  \<comment> \<open>Modelled from the spec: the notifier calls its callback, \<open>this.enable.bind(this)\<close>,
     on each transition to visible and on no transition to hidden. A rejection of the
     promise that the callback returns has no handler.\<close>
  "visibility_change visible r s =
     (let s1 = ((fst s)\<lparr>hidden := \<not> visible\<rparr>, snd s)
      in if visible \<and> visibility_listening (fst s1) then snd (enable r s1) else s1)"

datatype event =
    Enable response
  | Disable
  | Release nat
  | Visible response
  | Hidden
  | Tick nat
  | Capabilities bool bool

fun step :: "event \<Rightarrow> state \<Rightarrow> state" where
  "step (Enable r) s = snd (enable r s)"
| "step Disable s = snd (disable s)"
| "step (Release i) s = platform_release i s"
| "step (Visible r) s = visibility_change True r s"
| "step Hidden s = visibility_change False Resolve s"
| "step (Tick i) s = interval_tick i s"
| "step (Capabilities n l) s = ((fst s)\<lparr>wakeLock_in_navigator := n, old_ios := l\<rparr>, snd s)"

fun run :: "event list \<Rightarrow> state \<Rightarrow> state" where
  "run [] s = s"
| "run (e # es) s = run es (step e s)"

fun changes_capabilities :: "event \<Rightarrow> bool" where
  "changes_capabilities (Capabilities n l) = True"
| "changes_capabilities e = False"

text \<open>A page on which nothing has happened yet.\<close>

definition fresh_page :: "bool \<Rightarrow> bool \<Rightarrow> bool \<Rightarrow> string \<Rightarrow> browser" where
  "fresh_page n l h u =
     \<lparr>wakeLock_in_navigator = n, old_ios = l, hidden = h, href = u, sentinels = [],
      intervals = [], interval_count = 0, playing = False, metadata_listener = False,
      visibility_listening = False, console = [], effects = []\<rparr>"

text \<open>The branch that the three-way test of the capability predicates takes.\<close>

datatype strategy = Native | Legacy | Media

definition strategy_of :: "browser \<Rightarrow> strategy" where
  "strategy_of b =
     (if isNativeWakeLockSupported b then Native else if isOldIOS b then Legacy else Media)"

text \<open>The resources that keep the device awake at the moment.\<close>

definition active_sentinels :: "browser \<Rightarrow> nat" where
  "active_sentinels b = length (filter (\<lambda>x. \<not> released x) (sentinels b))"

definition active_resources :: "browser \<Rightarrow> nat" where
  "active_resources b =
     active_sentinels b + length (intervals b) + (if playing b then 1 else 0)"

text \<open>
  The fields that the branch of the constructor for a strategy assigns. An instance used
  under the capability answers it was built under has the fields of its strategy.
\<close>

fun populated :: "strategy \<Rightarrow> NoSleepJs \<Rightarrow> bool" where
  "populated Native this = (wakeLock this \<noteq> Undefined \<and> visibilityListener this = Ref ())"
| "populated Legacy this = (noSleepTimer this \<noteq> Undefined)"
| "populated Media this = (noSleepElement this = Ref ())"

text \<open>
  What holds of the resources under each strategy: only resources of the strategy's own
  kind exist, and \<open>enabled\<close> is tied to them as far as the code ties it.
\<close>

definition resource_invariant :: "strategy \<Rightarrow> state \<Rightarrow> bool" where
  "resource_invariant st s =
     (case st of
        Native \<Rightarrow>
          intervals (fst s) = [] \<and> \<not> playing (fst s)
          \<and> (enabled (snd s) \<longrightarrow>
               (case wakeLock (snd s) of Ref i \<Rightarrow> i < length (sentinels (fst s)) | _ \<Rightarrow> False))
      | Legacy \<Rightarrow>
          sentinels (fst s) = [] \<and> \<not> playing (fst s)
          \<and> (if enabled (snd s)
              then (case noSleepTimer (snd s) of
                      Ref i \<Rightarrow> i \<noteq> 0 \<and> intervals (fst s) = [(i, 15000)]
                    | _ \<Rightarrow> False)
              else intervals (fst s) = [])
      | Media \<Rightarrow>
          sentinels (fst s) = [] \<and> intervals (fst s) = []
          \<and> (enabled (snd s) \<longrightarrow> playing (fst s)))"

text \<open>
  A state in which the capability answers select strategy \<open>st\<close>, the instance has the
  fields of \<open>st\<close>, and the resources are as \<open>st\<close> leaves them.
\<close>

definition consistent :: "strategy \<Rightarrow> state \<Rightarrow> bool" where
  "consistent st s =
     (strategy_of (fst s) = st \<and> populated st (snd s) \<and> resource_invariant st s)"

section \<open>Facts about single calls\<close>

lemmas platform_defs =
  console_put_def isNativeWakeLockSupported_def isOldIOS_def wakeLock_request_def
  addReleaseListener_def onWakeLockRelease_def sentinel_release_def setInterval_def
  clearInterval_def removeListeners_def VisibilityListener_new_def setMetadataListener_def
  play_def pause_def

lemma constructor_populated: "populated (strategy_of b) (snd (constructor b))"
  by (simp add: constructor_def strategy_of_def Let_def)

lemma enable_native_Resolve:
  "isNativeWakeLockSupported b \<Longrightarrow>
   enable Resolve (b, this) =
     (None,
      b\<lparr>sentinels := sentinels b @ [\<lparr>released = False, release_listener = True\<rparr>],
        console := console b @ [Console_log ''Wake Lock active.'']\<rparr>,
      this\<lparr>wakeLock := Ref (length (sentinels b)), enabled := True\<rparr>)"
  by (simp add: enable_def enableWakeLock_def wakeLock_request_def addReleaseListener_def
      console_put_def Let_def)

lemma enable_native_Reject:
  "isNativeWakeLockSupported b \<Longrightarrow>
   enable (Reject err) (b, this) =
     (Some err,
      b\<lparr>console := console b @ [Console_error (err_name err @ '', '' @ err_message err)]\<rparr>,
      this\<lparr>enabled := False\<rparr>)"
  by (simp add: enable_def enableWakeLock_def console_put_def)

lemma disable_native_Ref:
  "isNativeWakeLockSupported b \<Longrightarrow> wakeLock this = Ref i \<Longrightarrow>
   disable (b, this) =
     (None,
      (case visibilityListener this of
         Ref l \<Rightarrow> removeListeners (sentinel_release i b)
       | _ \<Rightarrow> sentinel_release i b),
      this\<lparr>wakeLock := Null, enabled := False\<rparr>)"
  by (simp add: disable_def Let_def split: field.splits)

lemma sentinels_removeListeners: "sentinels (removeListeners b) = sentinels b"
  by (simp add: removeListeners_def)

lemma sentinels_release_active:
  "i < length (sentinels b) \<Longrightarrow> \<not> released (sentinels b ! i) \<Longrightarrow>
   sentinels (sentinel_release i b) = (sentinels b)[i := (sentinels b ! i)\<lparr>released := True\<rparr>]"
  by (simp add: sentinel_release_def onWakeLockRelease_def console_put_def Let_def)

lemma disable_legacy:
  "\<not> isNativeWakeLockSupported b \<Longrightarrow> isOldIOS b \<Longrightarrow>
   fst (disable (b, this)) = None
   \<and> \<not> enabled (snd (snd (disable (b, this))))
   \<and> (noSleepTimer this \<noteq> Undefined \<longrightarrow> noSleepTimer (snd (snd (disable (b, this)))) \<noteq> Undefined)
   \<and> sentinels (fst (snd (disable (b, this)))) = sentinels b
   \<and> playing (fst (snd (disable (b, this)))) = playing b
   \<and> length (intervals (fst (snd (disable (b, this))))) \<le> length (intervals b)"
  by (auto simp: disable_def clearInterval_def console_put_def split: field.splits)

lemma disable_legacy_Ref:
  "\<not> isNativeWakeLockSupported b \<Longrightarrow> isOldIOS b \<Longrightarrow> noSleepTimer this = Ref i \<Longrightarrow> i \<noteq> 0 \<Longrightarrow>
   disable (b, this) =
     (None,
      b\<lparr>console := console b @ [Console_warn ''NoSleep disabled for older iOS devices.''],
        intervals := filter (\<lambda>t. fst t \<noteq> i) (intervals b)\<rparr>,
      this\<lparr>noSleepTimer := Null, enabled := False\<rparr>)"
  by (simp add: disable_def clearInterval_def console_put_def)

lemma enable_media_Resolve:
  "\<not> isNativeWakeLockSupported b \<Longrightarrow> \<not> isOldIOS b \<Longrightarrow> noSleepElement this = Ref () \<Longrightarrow>
   enable Resolve (b, this) = (None, b\<lparr>playing := True\<rparr>, this\<lparr>enabled := True\<rparr>)"
  by (simp add: enable_def enableVideoPlayback_def play_def)

lemma disable_media:
  "\<not> isNativeWakeLockSupported b \<Longrightarrow> \<not> isOldIOS b \<Longrightarrow> noSleepElement this = Ref () \<Longrightarrow>
   disable (b, this) = (None, b\<lparr>playing := False\<rparr>, this\<lparr>enabled := False\<rparr>)"
  by (simp add: disable_def pause_def)

lemma enable_legacy:
  "\<not> isNativeWakeLockSupported b \<Longrightarrow> isOldIOS b \<Longrightarrow> disable (b, this) = (r0, b0, this0) \<Longrightarrow>
   r0 = None \<and>
   enable r (b, this) =
     (None,
      b0\<lparr>console := console b0 @
            [Console_warn ''NoSleep enabled for older iOS devices. This can interrupt active network requests.''],
         interval_count := Suc (interval_count b0),
         intervals := intervals b0 @ [(Suc (interval_count b0), 15000)]\<rparr>,
      this0\<lparr>noSleepTimer := Ref (Suc (interval_count b0)), enabled := True\<rparr>)"
  using disable_legacy [of b this]
  by (simp add: enable_def enableOldIOS_def setInterval_def console_put_def Let_def)

lemma constructor_consistent:
  "consistent (strategy_of (fresh_page n l h u)) (constructor (fresh_page n l h u))"
  by (simp add: consistent_def resource_invariant_def constructor_def strategy_of_def
      fresh_page_def platform_defs Let_def)

lemma strategy_of_simps:
  "strategy_of b = Native \<longleftrightarrow> isNativeWakeLockSupported b"
  "strategy_of b = Legacy \<longleftrightarrow> \<not> isNativeWakeLockSupported b \<and> isOldIOS b"
  "strategy_of b = Media \<longleftrightarrow> \<not> isNativeWakeLockSupported b \<and> \<not> isOldIOS b"
  by (simp_all add: strategy_of_def)

lemma enable_consistent:
  assumes "consistent st (b, this)"
  shows "consistent st (snd (enable r (b, this)))"
proof (cases st)
  case Native
  with assms have n: "isNativeWakeLockSupported b"
    by (simp add: consistent_def strategy_of_simps)
  show ?thesis
    using assms n
    by (cases r)
       (simp_all add: Native enable_native_Resolve enable_native_Reject consistent_def
          resource_invariant_def strategy_of_simps isNativeWakeLockSupported_def)
next
  case Legacy
  with assms have n: "\<not> isNativeWakeLockSupported b" and l: "isOldIOS b"
    by (simp_all add: consistent_def strategy_of_simps)
  obtain r0 b0 this0 where d0: "disable (b, this) = (r0, b0, this0)"
    by (cases "disable (b, this)") auto
  have b0: "wakeLock_in_navigator b0 = wakeLock_in_navigator b \<and> old_ios b0 = old_ios b
            \<and> sentinels b0 = sentinels b \<and> playing b0 = playing b \<and> intervals b0 = []
            \<and> noSleepTimer this0 \<noteq> Undefined"
    using assms d0 n l
    by (auto simp: Legacy consistent_def resource_invariant_def disable_def clearInterval_def
        console_put_def split: field.splits if_splits)
  show ?thesis
    using assms enable_legacy [OF n l d0, of r] b0 n l
    by (simp add: Legacy consistent_def resource_invariant_def strategy_of_simps
        isNativeWakeLockSupported_def isOldIOS_def)
next
  case Media
  with assms have n: "\<not> isNativeWakeLockSupported b" and l: "\<not> isOldIOS b"
    and el: "noSleepElement this = Ref ()"
    by (simp_all add: consistent_def strategy_of_simps)
  show ?thesis
    using assms n l
    by (cases r)
       (simp_all add: Media enable_def enableVideoPlayback_def el consistent_def
          resource_invariant_def strategy_of_simps isNativeWakeLockSupported_def isOldIOS_def
          play_def console_put_def)
qed

lemma sentinel_release_frame:
  "wakeLock_in_navigator (sentinel_release i b) = wakeLock_in_navigator b
   \<and> old_ios (sentinel_release i b) = old_ios b
   \<and> intervals (sentinel_release i b) = intervals b
   \<and> playing (sentinel_release i b) = playing b
   \<and> visibility_listening (sentinel_release i b) = visibility_listening b
   \<and> length (sentinels (sentinel_release i b)) = length (sentinels b)"
  by (simp add: sentinel_release_def onWakeLockRelease_def console_put_def Let_def)

lemma sentinel_release_nil:
  "sentinels b = [] \<Longrightarrow> sentinels (sentinel_release i b) = []"
  by (simp add: sentinel_release_def)

lemma disable_consistent:
  assumes "consistent st (b, this)"
  shows "consistent st (snd (disable (b, this)))"
proof (cases st)
  case Native
  with assms have n: "isNativeWakeLockSupported b"
    by (simp add: consistent_def strategy_of_simps)
  show ?thesis
    using assms n
    by (auto simp add: Native disable_def Let_def consistent_def resource_invariant_def
          strategy_of_simps isNativeWakeLockSupported_def removeListeners_def sentinel_release_frame
        split: field.splits)
next
  case Legacy
  with assms have n: "\<not> isNativeWakeLockSupported b" and l: "isOldIOS b"
    by (simp_all add: consistent_def strategy_of_simps)
  show ?thesis
    using assms n l
    by (auto simp: Legacy consistent_def resource_invariant_def disable_def clearInterval_def
        console_put_def strategy_of_simps isNativeWakeLockSupported_def isOldIOS_def
        split: field.splits if_splits)
next
  case Media
  with assms have n: "\<not> isNativeWakeLockSupported b" and l: "\<not> isOldIOS b"
    and el: "noSleepElement this = Ref ()"
    by (simp_all add: consistent_def strategy_of_simps)
  show ?thesis
    using assms n l
    by (simp add: Media disable_media [OF n l el] consistent_def resource_invariant_def
        strategy_of_simps isNativeWakeLockSupported_def isOldIOS_def)
qed

lemma release_consistent:
  assumes "consistent st s"
  shows "consistent st (platform_release i s)"
  using assms
  by (cases st)
     (auto simp add: platform_release_def consistent_def resource_invariant_def strategy_of_simps
        isNativeWakeLockSupported_def isOldIOS_def sentinel_release_frame
        sentinel_release_nil
      split: field.splits)

lemma tick_consistent:
  assumes "consistent st s"
  shows "consistent st (interval_tick i s)"
  using assms
  by (cases st)
     (auto simp add: interval_tick_def noSleepTick_def consistent_def resource_invariant_def
        strategy_of_simps isNativeWakeLockSupported_def isOldIOS_def Let_def
      split: field.splits)

lemma hidden_consistent:
  "consistent st s \<Longrightarrow> consistent st ((fst s)\<lparr>hidden := h\<rparr>, snd s)"
  by (cases st)
     (auto simp add: consistent_def resource_invariant_def strategy_of_simps
        isNativeWakeLockSupported_def isOldIOS_def split: field.splits)

lemma visibility_consistent:
  assumes "consistent st s"
  shows "consistent st (visibility_change v r s)"
proof -
  let ?s1 = "((fst s)\<lparr>hidden := \<not> v\<rparr>, snd s)"
  have c1: "consistent st ?s1"
    using assms by (rule hidden_consistent)
  have c2: "consistent st (snd (enable r ?s1))"
    using enable_consistent [of st "fst ?s1" "snd ?s1" r] c1 by simp
  show ?thesis
    using c1 c2 by (cases v) (simp_all add: visibility_change_def Let_def)
qed

lemma step_consistent:
  assumes "\<not> changes_capabilities e" and "consistent st s"
  shows "consistent st (step e s)"
proof (cases e)
  case (Enable r)
  then show ?thesis
    using enable_consistent [of st "fst s" "snd s" r] assms(2) by simp
next
  case Disable
  then show ?thesis
    using disable_consistent [of st "fst s" "snd s"] assms(2) by simp
next
  case (Release i)
  then show ?thesis
    using release_consistent [OF assms(2)] by simp
next
  case (Visible r)
  then show ?thesis
    using visibility_consistent [OF assms(2)] by simp
next
  case Hidden
  then show ?thesis
    using visibility_consistent [OF assms(2)] by simp
next
  case (Tick i)
  then show ?thesis
    using tick_consistent [OF assms(2)] by simp
next
  case (Capabilities n l)
  then show ?thesis
    using assms(1) by simp
qed

lemma run_consistent:
  "list_all (\<lambda>e. \<not> changes_capabilities e) evs \<Longrightarrow> consistent st s \<Longrightarrow>
   consistent st (run evs s)"
  by (induction evs arbitrary: s) (simp_all add: step_consistent)

lemma run_append: "run (xs @ ys) s = run ys (run xs s)"
  by (induction xs arbitrary: s) simp_all

lemma enable_listening:
  "visibility_listening (fst (snd (enable r s))) = visibility_listening (fst s)"
proof (cases s)
  case (Pair b this)
  have d: "visibility_listening (fst (snd (disable (b, this)))) = visibility_listening b"
    if "\<not> isNativeWakeLockSupported b"
    using that
    by (auto simp: disable_def clearInterval_def console_put_def pause_def
        split: field.splits if_splits)
  show ?thesis
  proof (cases "isNativeWakeLockSupported b")
    case True
    then show ?thesis
      by (cases r) (simp_all add: Pair enable_native_Resolve enable_native_Reject)
  next
    case False
    note n = this
    show ?thesis
    proof (cases "isOldIOS b")
      case True
      obtain r0 b0 this0 where d0: "disable (b, this) = (r0, b0, this0)"
        by (cases "disable (b, this)") auto
      show ?thesis
        using enable_legacy [OF n True d0, of r] d [OF n] d0
        by (simp add: Pair)
    next
      case False
      then show ?thesis
        using n
        by (cases r)
           (auto simp add: Pair enable_def enableVideoPlayback_def play_def console_put_def
              Let_def split: field.splits)
    qed
  qed
qed

lemma disable_keeps_not_listening:
  "\<not> visibility_listening (fst s) \<Longrightarrow> \<not> visibility_listening (fst (snd (disable s)))"
  by (cases s)
     (auto simp: disable_def Let_def clearInterval_def console_put_def pause_def
        removeListeners_def sentinel_release_frame split: field.splits if_splits)

lemma step_keeps_not_listening:
  assumes "\<not> visibility_listening (fst s)"
  shows "\<not> visibility_listening (fst (step e s))"
proof (cases e)
  case (Enable r)
  then show ?thesis using assms by (simp add: enable_listening)
next
  case Disable
  then show ?thesis using assms by (simp add: disable_keeps_not_listening)
next
  case (Release i)
  then show ?thesis using assms by (simp add: platform_release_def sentinel_release_frame)
next
  case (Visible r)
  then show ?thesis using assms by (simp add: visibility_change_def Let_def)
next
  case Hidden
  then show ?thesis using assms by (simp add: visibility_change_def Let_def)
next
  case (Tick i)
  then show ?thesis using assms by (simp add: interval_tick_def noSleepTick_def Let_def)
next
  case (Capabilities n l)
  then show ?thesis using assms by simp
qed

lemma run_keeps_not_listening:
  "\<not> visibility_listening (fst s) \<Longrightarrow> \<not> visibility_listening (fst (run evs s))"
  by (induction evs arbitrary: s) (simp_all add: step_keeps_not_listening)

lemma disable_native_not_listening:
  "isNativeWakeLockSupported (fst s) \<Longrightarrow> visibilityListener (snd s) = Ref () \<Longrightarrow>
   \<not> visibility_listening (fst (snd (disable s))) \<and> wakeLock (snd (snd (disable s))) = Null"
  by (cases s) (simp add: disable_def Let_def removeListeners_def)

lemma disable_frame:
  "wakeLock_in_navigator (fst (snd (disable s))) = wakeLock_in_navigator (fst s)
   \<and> old_ios (fst (snd (disable s))) = old_ios (fst s)
   \<and> noSleepElement (snd (snd (disable s))) = noSleepElement (snd s)"
  by (cases s)
     (auto simp: disable_def Let_def clearInterval_def console_put_def pause_def
        removeListeners_def sentinel_release_frame split: field.splits if_splits)

lemma enable_frame:
  "wakeLock_in_navigator (fst (snd (enable r s))) = wakeLock_in_navigator (fst s)
   \<and> old_ios (fst (snd (enable r s))) = old_ios (fst s)
   \<and> noSleepElement (snd (snd (enable r s))) = noSleepElement (snd s)"
proof (cases s)
  case (Pair b this)
  show ?thesis
  proof (cases "isNativeWakeLockSupported b")
    case True
    then show ?thesis
      by (cases r) (simp_all add: Pair enable_native_Resolve enable_native_Reject)
  next
    case False
    note n = this
    show ?thesis
    proof (cases "isOldIOS b")
      case True
      obtain r0 b0 this0 where d0: "disable (b, this) = (r0, b0, this0)"
        by (cases "disable (b, this)") auto
      show ?thesis
        using enable_legacy [OF n True d0, of r] disable_frame [of "(b, this)"] d0
        by (simp add: Pair)
    next
      case False
      then show ?thesis
        using n
        by (cases r)
           (auto simp add: Pair enable_def enableVideoPlayback_def play_def console_put_def
              Let_def split: field.splits)
    qed
  qed
qed

lemma step_frame:
  assumes "\<not> changes_capabilities e"
  shows "wakeLock_in_navigator (fst (step e s)) = wakeLock_in_navigator (fst s)
       \<and> old_ios (fst (step e s)) = old_ios (fst s)
       \<and> noSleepElement (snd (step e s)) = noSleepElement (snd s)"
proof (cases e)
  case (Enable r)
  then show ?thesis by (simp add: enable_frame)
next
  case Disable
  then show ?thesis by (simp add: disable_frame)
next
  case (Release i)
  then show ?thesis by (simp add: platform_release_def sentinel_release_frame)
next
  case (Visible r)
  then show ?thesis by (simp add: visibility_change_def Let_def enable_frame)
next
  case Hidden
  then show ?thesis by (simp add: visibility_change_def Let_def)
next
  case (Tick i)
  then show ?thesis by (simp add: interval_tick_def noSleepTick_def Let_def)
next
  case (Capabilities n l)
  then show ?thesis using assms by simp
qed

lemma run_frame:
  "list_all (\<lambda>e. \<not> changes_capabilities e) evs \<Longrightarrow>
   wakeLock_in_navigator (fst (run evs s)) = wakeLock_in_navigator (fst s)
   \<and> old_ios (fst (run evs s)) = old_ios (fst s)
   \<and> noSleepElement (snd (run evs s)) = noSleepElement (snd s)"
  by (induction evs arbitrary: s) (simp_all add: step_frame)

lemma run_strategy:
  "list_all (\<lambda>e. \<not> changes_capabilities e) evs \<Longrightarrow>
   strategy_of (fst (run evs s)) = strategy_of (fst s)"
  using run_frame [of evs s]
  by (simp add: strategy_of_def isNativeWakeLockSupported_def isOldIOS_def)

lemma constructor_frame:
  "strategy_of (fst (constructor b)) = strategy_of b
   \<and> (strategy_of b = Media \<longrightarrow> noSleepElement (snd (constructor b)) = Ref ())"
  by (simp add: constructor_def strategy_of_def platform_defs Let_def)

lemma run_constructor_element:
  assumes "list_all (\<lambda>e. \<not> changes_capabilities e) evs"
  shows "strategy_of (fst (run evs (constructor b))) = strategy_of b
       \<and> (strategy_of b = Media \<longrightarrow> noSleepElement (snd (run evs (constructor b))) = Ref ())"
  using run_strategy [OF assms, of "constructor b"] run_frame [OF assms, of "constructor b"]
    constructor_frame [of b]
  by simp

lemma disable_fails_iff:
  "fst (disable (b, this)) = None \<longleftrightarrow> (strategy_of b = Media \<longrightarrow> noSleepElement this = Ref ())"
  by (auto simp: disable_def strategy_of_def Let_def split: field.splits if_splits)

lemma disable_failure:
  "fst (disable (b, this)) \<noteq> None \<Longrightarrow> disable (b, this) = (Some (type_error ''pause''), b, this)"
  by (auto simp: disable_def Let_def split: field.splits if_splits)

lemma disable_success_not_enabled:
  "fst (disable (b, this)) = None \<Longrightarrow> \<not> enabled (snd (snd (disable (b, this))))"
  by (auto simp: disable_def Let_def split: field.splits if_splits)

lemma disable_success_twice:
  "fst (disable (b, this)) = None \<Longrightarrow>
   disable (snd (disable (b, this))) = (None, snd (disable (b, this)))"
  by (auto simp: disable_def Let_def platform_defs split: field.splits if_splits)

lemma enable_outcome:
  "fst (enable r (b, this)) =
     (case strategy_of b of
        Native \<Rightarrow> (case r of Resolve \<Rightarrow> None | Reject err \<Rightarrow> Some err)
      | Legacy \<Rightarrow> None
      | Media \<Rightarrow>
          if noSleepElement this = Ref ()
          then (case r of Resolve \<Rightarrow> None | Reject err \<Rightarrow> Some err)
          else Some (type_error ''play''))
   \<and> enabled (snd (snd (enable r (b, this)))) = (fst (enable r (b, this)) = None)"
proof (cases "strategy_of b")
  case Native
  then have n: "isNativeWakeLockSupported b"
    by (simp add: strategy_of_def split: if_splits)
  show ?thesis
    by (cases r)
       (simp_all add: Native enable_native_Resolve [OF n] enable_native_Reject [OF n])
next
  case Legacy
  then have n: "\<not> isNativeWakeLockSupported b" and l: "isOldIOS b"
    by (simp_all add: strategy_of_def split: if_splits)
  obtain r0 b0 this0 where d: "disable (b, this) = (r0, b0, this0)"
    by (cases "disable (b, this)") auto
  show ?thesis
    using enable_legacy [OF n l d, of r]
    by (simp add: Legacy)
next
  case Media
  then have n: "\<not> isNativeWakeLockSupported b" and l: "\<not> isOldIOS b"
    by (simp_all add: strategy_of_def split: if_splits)
  show ?thesis
    by (cases r; cases "noSleepElement this")
       (simp_all add: Media enable_def n l enableVideoPlayback_def Let_def)
qed

lemma disable_legacy_other:
  "\<not> isNativeWakeLockSupported b \<Longrightarrow> isOldIOS b \<Longrightarrow>
   (\<forall>i. noSleepTimer this = Ref i \<longrightarrow> i = 0) \<Longrightarrow>
   disable (b, this) = (None, b, this\<lparr>enabled := False\<rparr>)"
  by (auto simp: disable_def split: field.splits)

lemma disable_legacy_result:
  assumes n: "\<not> isNativeWakeLockSupported b" and l: "isOldIOS b"
    and d: "disable (b, this) = (r0, b0, this0)"
  shows "r0 = None \<and> \<not> enabled this0
       \<and> intervals b0 =
           (case noSleepTimer this of
              Ref i \<Rightarrow> if i \<noteq> 0 then filter (\<lambda>t. fst t \<noteq> i) (intervals b) else intervals b
            | _ \<Rightarrow> intervals b)
       \<and> interval_count b0 = interval_count b
       \<and> hidden b0 = hidden b \<and> href b0 = href b \<and> effects b0 = effects b
       \<and> this0\<lparr>noSleepTimer := x, enabled := y\<rparr> = this\<lparr>noSleepTimer := x, enabled := y\<rparr>"
proof (cases "\<exists>i. noSleepTimer this = Ref i \<and> i \<noteq> 0")
  case True
  then obtain i where i: "noSleepTimer this = Ref i" "i \<noteq> 0"
    by blast
  from d disable_legacy_Ref [OF n l i]
  show ?thesis
    by (auto simp add: i)
next
  case False
  then have no: "\<forall>i. noSleepTimer this = Ref i \<longrightarrow> i = 0"
    by blast
  from d disable_legacy_other [OF n l no]
  show ?thesis
    using no by (auto split: field.splits)
qed

lemma disable_native_effects:
  assumes "isNativeWakeLockSupported (fst s)"
  shows "fst (disable s) = None
       \<and> wakeLock (snd (snd (disable s))) = Null
       \<and> \<not> enabled (snd (snd (disable s)))
       \<and> (visibilityListener (snd s) = Ref () \<longrightarrow> \<not> visibility_listening (fst (snd (disable s))))
       \<and> intervals (fst (snd (disable s))) = intervals (fst s)
       \<and> playing (fst (snd (disable s))) = playing (fst s)"
  using assms
  by (cases s)
     (auto simp: disable_def Let_def removeListeners_def sentinel_release_frame
        split: field.splits)

lemma disable_legacy_effects:
  assumes "\<not> isNativeWakeLockSupported (fst s)" and "isOldIOS (fst s)"
  shows "fst (disable s) = None
       \<and> \<not> enabled (snd (snd (disable s)))
       \<and> intervals (fst (snd (disable s))) =
           (case noSleepTimer (snd s) of
              Ref i \<Rightarrow> if i \<noteq> 0 then filter (\<lambda>t. fst t \<noteq> i) (intervals (fst s))
                       else intervals (fst s)
            | _ \<Rightarrow> intervals (fst s))
       \<and> wakeLock (snd (snd (disable s))) = wakeLock (snd s)
       \<and> sentinels (fst (snd (disable s))) = sentinels (fst s)
       \<and> playing (fst (snd (disable s))) = playing (fst s)"
  using assms
  by (cases s)
     (auto simp: disable_def clearInterval_def console_put_def split: field.splits)

lemma disable_media_effects:
  assumes "\<not> isNativeWakeLockSupported (fst s)" and "\<not> isOldIOS (fst s)"
  shows "(if noSleepElement (snd s) = Ref ()
          then fst (disable s) = None \<and> \<not> playing (fst (snd (disable s)))
               \<and> \<not> enabled (snd (snd (disable s)))
          else disable s = (Some (type_error ''pause''), s))
       \<and> wakeLock (snd (snd (disable s))) = wakeLock (snd s)
       \<and> sentinels (fst (snd (disable s))) = sentinels (fst s)
       \<and> intervals (fst (snd (disable s))) = intervals (fst s)"
  using assms
  by (cases s)
     (auto simp: disable_def pause_def split: field.splits)

lemma capabilities_strategy:
  "strategy_of (fst (step (Capabilities n l) s)) = (if n then Native else if l then Legacy else Media)"
  by (simp add: strategy_of_def isNativeWakeLockSupported_def isOldIOS_def)

section \<open>disable\<close>

text \<open>
  Claim C7, as the specification states it, fails: \<open>disable()\<close> can throw. An instance
  built under the native strategy and enabled, on a page on which neither capability
  predicate holds any more, goes to the media branch of \<open>disable()\<close>, which reads a media
  element the constructor never made: the call throws a \<open>TypeError\<close> and \<open>enabled\<close> stays
  true.
\<close>

theorem disable_throws_counterexample:
  "fst (disable (run [Enable Resolve, Capabilities False False]
       (constructor (fresh_page True False False ''https://example.org/''))))
     = Some (type_error ''pause'')
   \<and> isEnabled (snd (snd (disable (run [Enable Resolve, Capabilities False False]
       (constructor (fresh_page True False False ''https://example.org/''))))))"
  by (simp add: isEnabled_def enable_def enableWakeLock_def disable_def constructor_def
      fresh_page_def platform_defs Let_def)

text \<open>
  Claim C7, amended. \<open>disable()\<close> fails in exactly one case: the capability answers of the
  moment select the media strategy and the instance has no media element. It then throws
  a \<open>TypeError\<close> and changes nothing, \<open>enabled\<close> included. In every other state, also
  when the instance was never enabled or is already disabled, \<open>disable()\<close> throws nothing
  and leaves \<open>enabled = false\<close>, and a second \<open>disable()\<close> right after it throws nothing
  and leaves the page and the instance exactly as the first one left them. The failing
  case needs a change of the capability answers: in every state reached from
  construction while the answers stay the same, \<open>disable()\<close> does not fail.
\<close>

theorem disable_never_fails_idempotent:
  "(fst (disable (b, this)) = None
      \<longleftrightarrow> (strategy_of b = Media \<longrightarrow> noSleepElement this = Ref ()))
   \<and> (fst (disable (b, this)) = None \<longrightarrow>
        \<not> isEnabled (snd (snd (disable (b, this))))
        \<and> disable (snd (disable (b, this))) = (None, snd (disable (b, this))))
   \<and> (fst (disable (b, this)) \<noteq> None \<longrightarrow>
        disable (b, this) = (Some (type_error ''pause''), b, this))
   \<and> (list_all (\<lambda>e. \<not> changes_capabilities e) evs \<longrightarrow>
        fst (disable (run evs (constructor b0))) = None)"
proof -
  have reach: "fst (disable (run evs (constructor b0))) = None"
    if "list_all (\<lambda>e. \<not> changes_capabilities e) evs"
    using run_constructor_element [OF that, of b0]
      disable_fails_iff [of "fst (run evs (constructor b0))" "snd (run evs (constructor b0))"]
    by simp
  show ?thesis
    using disable_fails_iff [of b this] disable_failure [of b this]
      disable_success_not_enabled [of b this] disable_success_twice [of b this] reach
    by (simp add: isEnabled_def)
qed

theorem disable_never_fails_idempotent_witness:
  "fst (disable (constructor (fresh_page False True False ''https://example.org/#top''))) = None
   \<and> \<not> isEnabled (snd (snd (disable (constructor (fresh_page False True False ''https://example.org/#top'')))))
   \<and> disable (snd (disable (constructor (fresh_page False True False ''https://example.org/#top''))))
       = (None, snd (disable (constructor (fresh_page False True False ''https://example.org/#top''))))
   \<and> list_all (\<lambda>e. \<not> changes_capabilities e) [Enable Resolve, Disable, Hidden]
   \<and> fst (disable (run [Enable Resolve, Disable, Hidden]
        (constructor (fresh_page False False False ''https://example.org/'')))) = None
   \<and> fst (disable (fresh_page False False False ''https://example.org/'',
        \<lparr>enabled = True, wakeLock = Ref 0, visibilityListener = Ref (),
         noSleepTimer = Undefined, noSleepElement = Undefined\<rparr>)) \<noteq> None
   \<and> disable (fresh_page False False False ''https://example.org/'',
        \<lparr>enabled = True, wakeLock = Ref 0, visibilityListener = Ref (),
         noSleepTimer = Undefined, noSleepElement = Undefined\<rparr>)
       = (Some (type_error ''pause''), fresh_page False False False ''https://example.org/'',
          \<lparr>enabled = True, wakeLock = Ref 0, visibilityListener = Ref (),
           noSleepTimer = Undefined, noSleepElement = Undefined\<rparr>)"
proof -
  let ?s = "constructor (fresh_page False True False ''https://example.org/#top'')"
  let ?evs = "[Enable Resolve, Disable, Hidden]"
  let ?b = "fresh_page False False False ''https://example.org/''"
  let ?inst = "\<lparr>enabled = True, wakeLock = Ref 0, visibilityListener = Ref (),
         noSleepTimer = Undefined, noSleepElement = Undefined\<rparr>"
  have h1: "fst (disable (fst ?s, snd ?s)) = None"
    by (simp add: disable_def constructor_def fresh_page_def platform_defs Let_def)
  have h2: "list_all (\<lambda>e. \<not> changes_capabilities e) ?evs"
    by simp
  have h3: "fst (disable (?b, ?inst)) \<noteq> None"
    by (simp add: disable_def fresh_page_def platform_defs)
  from disable_never_fails_idempotent [of "fst ?s" "snd ?s" ?evs ?b]
    disable_never_fails_idempotent [of ?b ?inst "[]" ?b] h1 h2 h3
  show ?thesis
    by (simp add: constructor_frame)
qed

section \<open>Release events\<close>

text \<open>
  Claim C3, as the specification states it, fails: after a successful \<open>enable()\<close> under the
  native strategy, a release event of the platform leaves \<open>isEnabled\<close> true although no
  sentinel holds the lock any more.
\<close>

theorem release_event_counterexample:
  "isEnabled (snd (platform_release 0 (snd (enable Resolve
       (constructor (fresh_page True False False ''https://example.org/''))))))
   \<and> active_sentinels (fst (platform_release 0 (snd (enable Resolve
       (constructor (fresh_page True False False ''https://example.org/'')))))) = 0"
  by (simp add: isEnabled_def platform_release_def enable_def enableWakeLock_def constructor_def
      fresh_page_def active_sentinels_def platform_defs Let_def)

text \<open>
  Claim C3, amended. A release event of the platform marks the sentinel as released and
  runs the handler, which only writes \<open>Wake Lock released.\<close> to the console: the instance,
  and so \<open>enabled\<close>, stays as it was, no lock is requested in response (the sentinels are
  as many as before, and the other ones are untouched), and nothing else on the page
  changes.
\<close>

theorem release_event_only_logs:
  "snd (platform_release i (b, this)) = this
   \<and> length (sentinels (fst (platform_release i (b, this)))) = length (sentinels b)
   \<and> (i < length (sentinels b) \<longrightarrow> released (sentinels (fst (platform_release i (b, this))) ! i))
   \<and> (\<forall>j < length (sentinels b). j \<noteq> i \<longrightarrow>
         sentinels (fst (platform_release i (b, this))) ! j = sentinels b ! j)
   \<and> console (fst (platform_release i (b, this))) =
       console b @
         (if i < length (sentinels b) \<and> \<not> released (sentinels b ! i)
             \<and> release_listener (sentinels b ! i)
          then [Console_log ''Wake Lock released.''] else [])
   \<and> (fst (platform_release i (b, this)))\<lparr>sentinels := sentinels b, console := console b\<rparr> = b"
  by (simp add: platform_release_def platform_defs Let_def)

theorem release_event_only_logs_witness:
  "1 < length (sentinels (fst (run [Enable Resolve, Enable Resolve]
         (constructor (fresh_page True False False ''https://example.org/'')))))
   \<and> (0::nat) < length (sentinels (fst (run [Enable Resolve, Enable Resolve]
         (constructor (fresh_page True False False ''https://example.org/'')))))
   \<and> (0::nat) \<noteq> 1
   \<and> released (sentinels (fst (platform_release 1 (run [Enable Resolve, Enable Resolve]
         (constructor (fresh_page True False False ''https://example.org/''))))) ! 1)
   \<and> sentinels (fst (platform_release 1 (run [Enable Resolve, Enable Resolve]
         (constructor (fresh_page True False False ''https://example.org/''))))) ! 0
       = sentinels (fst (run [Enable Resolve, Enable Resolve]
         (constructor (fresh_page True False False ''https://example.org/'')))) ! 0
   \<and> snd (platform_release 1 (run [Enable Resolve, Enable Resolve]
         (constructor (fresh_page True False False ''https://example.org/''))))
       = snd (run [Enable Resolve, Enable Resolve]
         (constructor (fresh_page True False False ''https://example.org/'')))"
proof -
  let ?s = "run [Enable Resolve, Enable Resolve]
         (constructor (fresh_page True False False ''https://example.org/''))"
  have h: "1 < length (sentinels (fst ?s))"
    by (simp add: enable_def enableWakeLock_def constructor_def fresh_page_def platform_defs
        Let_def)
  from h have h0: "0 < length (sentinels (fst ?s))"
    by linarith
  from release_event_only_logs [of 1 "fst ?s" "snd ?s"] h h0
  show ?thesis
    by (metis prod.collapse zero_neq_one)
qed

section \<open>Two successful enable calls in a row\<close>

text \<open>
  Claim C10. Under the native strategy, when \<open>enable()\<close> succeeds twice with no
  \<open>disable()\<close> in between, the second call stores the newly acquired sentinel in place of
  the first without releasing the first, and registers the release handler on the new
  sentinel as well; a later \<open>disable()\<close> releases only the most recent sentinel, and the
  earlier one goes on holding the lock.
\<close>

theorem second_enable_overwrites_handle:
  assumes native: "isNativeWakeLockSupported b"
    and e1: "enable Resolve (b, this) = (r1, b1, this1)"
    and e2: "enable Resolve (b1, this1) = (r2, b2, this2)"
    and d: "disable (b2, this2) = (r3, b3, this3)"
  shows "r1 = None \<and> r2 = None \<and> r3 = None
       \<and> wakeLock this1 = Ref (length (sentinels b))
       \<and> wakeLock this2 = Ref (Suc (length (sentinels b)))
       \<and> length (sentinels b2) = Suc (Suc (length (sentinels b)))
       \<and> sentinels b2 ! length (sentinels b) = \<lparr>released = False, release_listener = True\<rparr>
       \<and> sentinels b2 ! Suc (length (sentinels b)) = \<lparr>released = False, release_listener = True\<rparr>
       \<and> wakeLock this3 = Null
       \<and> released (sentinels b3 ! Suc (length (sentinels b)))
       \<and> \<not> released (sentinels b3 ! length (sentinels b))"
proof -
  let ?n = "length (sentinels b)"
  let ?new = "\<lparr>released = False, release_listener = True\<rparr>"
  from e1 native have r1: "r1 = None"
    and b1: "b1 = b\<lparr>sentinels := sentinels b @ [?new],
                     console := console b @ [Console_log ''Wake Lock active.'']\<rparr>"
    and t1: "this1 = this\<lparr>wakeLock := Ref ?n, enabled := True\<rparr>"
    by (simp_all add: enable_native_Resolve)
  have native1: "isNativeWakeLockSupported b1"
    using native by (simp add: b1 isNativeWakeLockSupported_def)
  have s1: "sentinels b1 = sentinels b @ [?new]"
    by (simp add: b1)
  from e2 native1 have r2: "r2 = None"
    and s2: "sentinels b2 = sentinels b1 @ [?new]"
    and t2: "wakeLock this2 = Ref (length (sentinels b1))"
    and native2: "isNativeWakeLockSupported b2"
    by (auto simp add: enable_native_Resolve isNativeWakeLockSupported_def)
  have w2: "wakeLock this2 = Ref (Suc ?n)"
    by (simp add: t2 s1)
  have s2': "sentinels b2 = sentinels b @ [?new, ?new]"
    by (simp add: s2 s1)
  have in2: "Suc ?n < length (sentinels b2)" and act2: "\<not> released (sentinels b2 ! Suc ?n)"
    by (simp_all add: s2' nth_append)
  from d have r3: "r3 = None" and t3: "wakeLock this3 = Null"
    and s3: "sentinels b3 = sentinels (sentinel_release (Suc ?n) b2)"
    by (auto simp add: disable_native_Ref [OF native2 w2] sentinels_removeListeners
             split: field.splits)
  have s3': "sentinels b3 = sentinels b @ [?new, ?new\<lparr>released := True\<rparr>]"
    by (simp add: s3 sentinels_release_active [OF in2 act2])
       (simp add: s2' nth_append list_update_append)
  show ?thesis
    by (simp add: r1 r2 r3 t1 w2 t3 s2' s3' nth_append)
qed

theorem second_enable_overwrites_handle_witness:
  "isNativeWakeLockSupported (fst (constructor (fresh_page True False False ''https://example.org/'')))
   \<and> wakeLock (snd (run [Enable Resolve]
         (constructor (fresh_page True False False ''https://example.org/'')))) = Ref 0
   \<and> wakeLock (snd (run [Enable Resolve, Enable Resolve]
         (constructor (fresh_page True False False ''https://example.org/'')))) = Ref 1
   \<and> released (sentinels (fst (run [Enable Resolve, Enable Resolve, Disable]
         (constructor (fresh_page True False False ''https://example.org/'')))) ! 1)
   \<and> \<not> released (sentinels (fst (run [Enable Resolve, Enable Resolve, Disable]
         (constructor (fresh_page True False False ''https://example.org/'')))) ! 0)"
proof -
  let ?s = "constructor (fresh_page True False False ''https://example.org/'')"
  let ?e1 = "enable Resolve ?s"
  let ?e2 = "enable Resolve (snd ?e1)"
  let ?d = "disable (snd ?e2)"
  have h: "isNativeWakeLockSupported (fst ?s)"
    by (simp add: constructor_def fresh_page_def platform_defs Let_def)
  have n: "length (sentinels (fst ?s)) = 0"
    by (simp add: constructor_def fresh_page_def platform_defs Let_def)
  have e1: "enable Resolve (fst ?s, snd ?s) = (fst ?e1, fst (snd ?e1), snd (snd ?e1))"
    by simp
  have e2: "enable Resolve (fst (snd ?e1), snd (snd ?e1)) = (fst ?e2, fst (snd ?e2), snd (snd ?e2))"
    by simp
  have d: "disable (fst (snd ?e2), snd (snd ?e2)) = (fst ?d, fst (snd ?d), snd (snd ?d))"
    by simp
  from second_enable_overwrites_handle [OF h e1 e2 d] h
  show ?thesis
    unfolding n by simp
qed

section \<open>The legacy timer\<close>

text \<open>
  Claim C8. Under the legacy strategy \<open>enable()\<close> first runs \<open>disable()\<close>, which clears the
  timer that the instance holds, if any, and resets \<open>enabled\<close>; it then starts a recurring
  timer with a period of 15000 milliseconds, stores its handle and sets
  \<open>enabled = true\<close>, in one synchronous step that throws nothing, whatever the platform
  would answer to a request. An instance whose held timer is the only one running has
  exactly the new timer running afterwards. A tick of this timer while the page is
  visible cuts the URL at its first \<open>#\<close>, navigates to the result and then stops the
  loading of the page; a tick while the page is hidden does nothing.
\<close>

theorem legacy_enable_starts_timer:
  assumes n: "\<not> isNativeWakeLockSupported b" and l: "isOldIOS b"
    and d: "disable (b, this) = (r0, b0, this0)"
    and e: "enable r (b, this) = (r1, b1, this1)"
  shows "r0 = None \<and> r1 = None
       \<and> \<not> isEnabled this0
       \<and> intervals b0 =
           (case noSleepTimer this of
              Ref i \<Rightarrow> if i \<noteq> 0 then filter (\<lambda>t. fst t \<noteq> i) (intervals b) else intervals b
            | _ \<Rightarrow> intervals b)
       \<and> interval_count b0 = interval_count b
       \<and> isEnabled this1
       \<and> noSleepTimer this1 = Ref (Suc (interval_count b0))
       \<and> this1 = this\<lparr>noSleepTimer := Ref (Suc (interval_count b)), enabled := True\<rparr>
       \<and> intervals b1 = intervals b0 @ [(Suc (interval_count b0), 15000)]
       \<and> (\<forall>i p. noSleepTimer this = Ref i \<longrightarrow> i \<noteq> 0 \<longrightarrow> intervals b = [(i, p)] \<longrightarrow>
             intervals b1 = [(Suc (interval_count b), 15000)])
       \<and> interval_tick (Suc (interval_count b0)) (b1, this1) =
           (if hidden b1 then (b1, this1)
            else (b1\<lparr>href := takeWhile (\<lambda>c. c \<noteq> CHR ''#'') (href b1),
                     effects := effects b1 @
                       [Navigate (takeWhile (\<lambda>c. c \<noteq> CHR ''#'') (href b1)), Stop_loading]\<rparr>,
                  this1))
       \<and> CHR ''#'' \<notin> set (takeWhile (\<lambda>c. c \<noteq> CHR ''#'') (href b1))
       \<and> (CHR ''#'' \<notin> set (href b1) \<longrightarrow> takeWhile (\<lambda>c. c \<noteq> CHR ''#'') (href b1) = href b1)"
proof -
  let ?k = "Suc (interval_count b0)"
  note dr = disable_legacy_result [OF n l d]
  have r0: "r0 = None" and off0: "\<not> isEnabled this0"
    and i0: "intervals b0 =
           (case noSleepTimer this of
              Ref i \<Rightarrow> if i \<noteq> 0 then filter (\<lambda>t. fst t \<noteq> i) (intervals b) else intervals b
            | _ \<Rightarrow> intervals b)"
    and c0: "interval_count b0 = interval_count b"
    using dr by (simp_all add: isEnabled_def)
  from enable_legacy [OF n l d, of r] e
  have r1: "r1 = None"
    and b1: "b1 = b0\<lparr>console := console b0 @
            [Console_warn ''NoSleep enabled for older iOS devices. This can interrupt active network requests.''],
         interval_count := ?k,
         intervals := intervals b0 @ [(?k, 15000)]\<rparr>"
    and t1: "this1 = this0\<lparr>noSleepTimer := Ref ?k, enabled := True\<rparr>"
    by simp_all
  have t1': "this1 = this\<lparr>noSleepTimer := Ref (Suc (interval_count b)), enabled := True\<rparr>"
    using dr [where x = "Ref ?k" and y = True] by (simp add: t1 c0)
  have iv: "intervals b1 = intervals b0 @ [(?k, 15000)]"
    by (simp add: b1)
  have one: "\<forall>i p. noSleepTimer this = Ref i \<longrightarrow> i \<noteq> 0 \<longrightarrow> intervals b = [(i, p)] \<longrightarrow>
             intervals b1 = [(Suc (interval_count b), 15000)]"
    by (simp add: iv i0 c0)
  have tick: "interval_tick ?k (b1, this1) = (noSleepTick b1, this1)"
    by (simp add: interval_tick_def iv)
  have strip: "CHR ''#'' \<notin> set (takeWhile (\<lambda>c. c \<noteq> CHR ''#'') (href b1))"
    by (auto dest: set_takeWhileD)
  have whole: "CHR ''#'' \<notin> set (href b1) \<longrightarrow> takeWhile (\<lambda>c. c \<noteq> CHR ''#'') (href b1) = href b1"
    by auto
  have en: "isEnabled this1" and tm: "noSleepTimer this1 = Ref ?k"
    by (simp_all add: t1 isEnabled_def)
  have tk: "interval_tick ?k (b1, this1) =
           (if hidden b1 then (b1, this1)
            else (b1\<lparr>href := takeWhile (\<lambda>c. c \<noteq> CHR ''#'') (href b1),
                     effects := effects b1 @
                       [Navigate (takeWhile (\<lambda>c. c \<noteq> CHR ''#'') (href b1)), Stop_loading]\<rparr>,
                  this1))"
    by (simp add: tick noSleepTick_def Let_def)
  show ?thesis
    by (intro conjI) (fact r0 r1 off0 i0 c0 en tm t1' iv one tk strip whole)+
qed

theorem legacy_enable_starts_timer_witness:
  "\<not> isNativeWakeLockSupported (fst (run [Enable Resolve]
        (constructor (fresh_page False True False ''https://example.org/a#top''))))
   \<and> isOldIOS (fst (run [Enable Resolve]
        (constructor (fresh_page False True False ''https://example.org/a#top''))))
   \<and> noSleepTimer (snd (run [Enable Resolve]
        (constructor (fresh_page False True False ''https://example.org/a#top'')))) = Ref 1
   \<and> intervals (fst (run [Enable Resolve]
        (constructor (fresh_page False True False ''https://example.org/a#top'')))) = [(1, 15000)]
   \<and> CHR ''#'' \<in> set (href (fst (run [Enable Resolve]
        (constructor (fresh_page False True False ''https://example.org/a#top'')))))
   \<and> fst (enable (Reject \<lparr>err_name = ''NotAllowedError'', err_message = ''denied''\<rparr>)
        (run [Enable Resolve]
          (constructor (fresh_page False True False ''https://example.org/a#top'')))) = None
   \<and> isEnabled (snd (snd (enable (Reject \<lparr>err_name = ''NotAllowedError'', err_message = ''denied''\<rparr>)
        (run [Enable Resolve]
          (constructor (fresh_page False True False ''https://example.org/a#top''))))))
   \<and> intervals (fst (snd (enable (Reject \<lparr>err_name = ''NotAllowedError'', err_message = ''denied''\<rparr>)
        (run [Enable Resolve]
          (constructor (fresh_page False True False ''https://example.org/a#top'')))))) = [(2, 15000)]"
proof -
  let ?s = "run [Enable Resolve]
        (constructor (fresh_page False True False ''https://example.org/a#top''))"
  let ?r = "Reject \<lparr>err_name = ''NotAllowedError'', err_message = ''denied''\<rparr>"
  let ?d = "disable ?s"
  let ?e = "enable ?r ?s"
  have s: "?s =
     ((fresh_page False True False ''https://example.org/a#top'')
        \<lparr>console := [Console_warn ''NoSleep enabled for older iOS devices. This can interrupt active network requests.''],
         interval_count := 1, intervals := [(1, 15000)]\<rparr>,
      \<lparr>enabled = True, wakeLock = Undefined, visibilityListener = Undefined,
       noSleepTimer = Ref 1, noSleepElement = Undefined\<rparr>)"
    by (simp add: enable_def enableOldIOS_def disable_def constructor_def fresh_page_def
        platform_defs Let_def)
  have h1: "\<not> isNativeWakeLockSupported (fst ?s)" and h2: "isOldIOS (fst ?s)"
    and tm: "noSleepTimer (snd ?s) = Ref 1" and iv: "intervals (fst ?s) = [(1, 15000)]"
    and ic: "interval_count (fst ?s) = 1" and hr: "CHR ''#'' \<in> set (href (fst ?s))"
    unfolding s by (simp_all add: fresh_page_def platform_defs)
  have d: "disable (fst ?s, snd ?s) = (fst ?d, fst (snd ?d), snd (snd ?d))"
    by (simp del: run.simps)
  have e: "enable ?r (fst ?s, snd ?s) = (fst ?e, fst (snd ?e), snd (snd ?e))"
    by (simp del: run.simps)
  have two: "Suc 1 = (2::nat)"
    by simp
  note inst = legacy_enable_starts_timer [OF h1 h2 d e]
  have r1: "fst ?e = None" and en: "isEnabled (snd (snd ?e))"
    using inst by blast+
  have "\<forall>i p. noSleepTimer (snd ?s) = Ref i \<longrightarrow> i \<noteq> 0 \<longrightarrow> intervals (fst ?s) = [(i, p)] \<longrightarrow>
             intervals (fst (snd ?e)) = [(Suc (interval_count (fst ?s)), 15000)]"
    using inst by blast
  then have one: "intervals (fst (snd ?e)) = [(2, 15000)]"
    using tm iv ic by simp
  show ?thesis
    by (intro conjI) (fact h1 h2 tm iv hr r1 en one)+
qed

section \<open>Failure of enable\<close>

text \<open>
  Claim C5, as the specification states it, fails: \<open>enable()\<close> can fail with no rejection by
  the platform. On an instance built under the native strategy, once neither capability
  predicate holds any more, \<open>enable()\<close> goes to the media branch and reads a media element
  the constructor never made: it throws a \<open>TypeError\<close> although the platform would have
  granted the request.
\<close>

theorem enable_fails_without_rejection_counterexample:
  "fst (enable Resolve (run [Capabilities False False]
       (constructor (fresh_page True False False ''https://example.org/''))))
     = Some (type_error ''play'')
   \<and> \<not> isEnabled (snd (snd (enable Resolve (run [Capabilities False False]
       (constructor (fresh_page True False False ''https://example.org/''))))))"
  by (simp add: isEnabled_def enable_def enableVideoPlayback_def constructor_def
      fresh_page_def platform_defs Let_def)

text \<open>
  Claim C5, amended. \<open>enable()\<close> fails exactly when the platform rejects the wake-lock
  request (native strategy), when it rejects the playback request (media strategy), or
  when the capability answers of the moment select the media strategy and the instance
  has no media element, in which case a \<open>TypeError\<close> is thrown. The legacy strategy makes
  no request and never fails. In the first two cases the error thrown is the platform's
  own error object, with its classification and message. Every failure leaves
  \<open>enabled = false\<close>, and a call that does not fail leaves \<open>enabled = true\<close>. The third
  case needs a change of the capability answers: in every state reached from
  construction while the answers stay the same, \<open>enable()\<close> fails exactly when the
  platform rejects the request.
\<close>

theorem enable_fails_exactly_on_rejection:
  "fst (enable r (b, this)) =
     (case strategy_of b of
        Native \<Rightarrow> (case r of Resolve \<Rightarrow> None | Reject err \<Rightarrow> Some err)
      | Legacy \<Rightarrow> None
      | Media \<Rightarrow>
          if noSleepElement this = Ref ()
          then (case r of Resolve \<Rightarrow> None | Reject err \<Rightarrow> Some err)
          else Some (type_error ''play''))
   \<and> (fst (enable r (b, this)) \<noteq> None \<longrightarrow> \<not> isEnabled (snd (snd (enable r (b, this)))))
   \<and> (fst (enable r (b, this)) = None \<longrightarrow> isEnabled (snd (snd (enable r (b, this)))))
   \<and> (list_all (\<lambda>e. \<not> changes_capabilities e) evs \<longrightarrow>
        fst (enable r (run evs (constructor b0))) =
          (case r of Resolve \<Rightarrow> None
           | Reject err \<Rightarrow> if strategy_of b0 = Legacy then None else Some err))"
proof -
  have reach: "fst (enable r (run evs (constructor b0))) =
          (case r of Resolve \<Rightarrow> None
           | Reject err \<Rightarrow> if strategy_of b0 = Legacy then None else Some err)"
    if "list_all (\<lambda>e. \<not> changes_capabilities e) evs"
    using run_constructor_element [OF that, of b0]
      enable_outcome [of r "fst (run evs (constructor b0))" "snd (run evs (constructor b0))"]
    by (cases "strategy_of b0"; cases r) simp_all
  show ?thesis
    using enable_outcome [of r b this] reach
    by (simp add: isEnabled_def)
qed

theorem enable_fails_exactly_on_rejection_witness:
  "fst (enable (Reject \<lparr>err_name = ''NotAllowedError'', err_message = ''play() failed''\<rparr>)
          (constructor (fresh_page False False False ''https://example.org/'')))
       = Some \<lparr>err_name = ''NotAllowedError'', err_message = ''play() failed''\<rparr>
   \<and> \<not> isEnabled (snd (snd (enable (Reject \<lparr>err_name = ''NotAllowedError'', err_message = ''play() failed''\<rparr>)
          (constructor (fresh_page False False False ''https://example.org/'')))))
   \<and> fst (enable Resolve (constructor (fresh_page False False False ''https://example.org/''))) = None
   \<and> isEnabled (snd (snd (enable Resolve
          (constructor (fresh_page False False False ''https://example.org/'')))))
   \<and> list_all (\<lambda>e. \<not> changes_capabilities e) [Enable Resolve, Hidden, Disable]
   \<and> fst (enable (Reject \<lparr>err_name = ''NotAllowedError'', err_message = ''denied''\<rparr>)
          (run [Enable Resolve, Hidden, Disable]
             (constructor (fresh_page True False False ''https://example.org/''))))
       = Some \<lparr>err_name = ''NotAllowedError'', err_message = ''denied''\<rparr>"
proof -
  let ?s = "constructor (fresh_page False False False ''https://example.org/'')"
  let ?e = "\<lparr>err_name = ''NotAllowedError'', err_message = ''play() failed''\<rparr>"
  let ?e2 = "\<lparr>err_name = ''NotAllowedError'', err_message = ''denied''\<rparr>"
  let ?evs = "[Enable Resolve, Hidden, Disable]"
  let ?b0 = "fresh_page True False False ''https://example.org/''"
  have st: "strategy_of (fst ?s) = Media" and el: "noSleepElement (snd ?s) = Ref ()"
    by (simp_all add: constructor_def fresh_page_def strategy_of_def platform_defs Let_def)
  have st0: "strategy_of ?b0 = Native"
    by (simp add: fresh_page_def strategy_of_def platform_defs)
  have h: "list_all (\<lambda>e. \<not> changes_capabilities e) ?evs"
    by simp
  from enable_fails_exactly_on_rejection [of "Reject ?e" "fst ?s" "snd ?s" "[]" ?b0]
    enable_fails_exactly_on_rejection [of Resolve "fst ?s" "snd ?s" "[]" ?b0]
    enable_fails_exactly_on_rejection [of "Reject ?e2" "fst ?s" "snd ?s" ?evs ?b0]
    h
  show ?thesis
    by (simp add: st el st0)
qed

section \<open>enable followed by disable\<close>

text \<open>
  Claim C6. Under every strategy, for an instance that has the fields of the strategy in
  force, a successful \<open>enable()\<close> followed at once by \<open>disable()\<close> ends with
  \<open>isEnabled\<close> false and leaks nothing: the sentinel that was acquired is released and the
  handle cleared, the timer that was started is cleared and its handle set to \<open>null\<close>, the
  media surface that was started is paused, and no more resources are active afterwards
  than before the two calls.
\<close>

theorem enable_then_disable_leaves_nothing:
  assumes pop: "populated (strategy_of b) this"
    and e: "enable Resolve (b, this) = (r1, b1, this1)"
    and d: "disable (b1, this1) = (r2, b2, this2)"
  shows "r1 = None \<and> isEnabled this1 \<and> r2 = None \<and> \<not> isEnabled this2
       \<and> (case strategy_of b of
            Native \<Rightarrow>
              wakeLock this1 = Ref (length (sentinels b))
              \<and> \<not> released (sentinels b1 ! length (sentinels b))
              \<and> released (sentinels b2 ! length (sentinels b))
              \<and> wakeLock this2 = Null
          | Legacy \<Rightarrow>
              noSleepTimer this1 = Ref (interval_count b1)
              \<and> interval_count b1 \<in> fst ` set (intervals b1)
              \<and> interval_count b1 \<notin> fst ` set (intervals b2)
              \<and> noSleepTimer this2 = Null
          | Media \<Rightarrow> playing b1 \<and> \<not> playing b2)
       \<and> active_resources b2 \<le> active_resources b"
proof (cases "strategy_of b")
  case Native
  then have n: "isNativeWakeLockSupported b"
    by (simp add: strategy_of_def split: if_splits)
  let ?n = "length (sentinels b)"
  let ?new = "\<lparr>released = False, release_listener = True\<rparr>"
  from e n have r1: "r1 = None"
    and b1: "b1 = b\<lparr>sentinels := sentinels b @ [?new],
                     console := console b @ [Console_log ''Wake Lock active.'']\<rparr>"
    and t1: "this1 = this\<lparr>wakeLock := Ref ?n, enabled := True\<rparr>"
    by (simp_all add: enable_native_Resolve)
  have n1: "isNativeWakeLockSupported b1"
    using n by (simp add: b1 isNativeWakeLockSupported_def)
  have w1: "wakeLock this1 = Ref ?n" and en1: "isEnabled this1"
    by (simp_all add: t1 isEnabled_def)
  have s1: "sentinels b1 = sentinels b @ [?new]"
    and i1: "intervals b1 = intervals b" and p1: "playing b1 = playing b"
    by (simp_all add: b1)
  have in1: "?n < length (sentinels b1)" and act1: "\<not> released (sentinels b1 ! ?n)"
    by (simp_all add: s1)
  have rel: "sentinels (sentinel_release ?n b1) = sentinels b @ [?new\<lparr>released := True\<rparr>]"
    by (simp add: sentinels_release_active [OF in1 act1]) (simp add: s1)
  have frame: "intervals (sentinel_release ?n b1) = intervals b1
             \<and> playing (sentinel_release ?n b1) = playing b1"
    by (simp add: sentinel_release_def onWakeLockRelease_def console_put_def Let_def)
  from d have r2: "r2 = None" and t2: "this2 = this1\<lparr>wakeLock := Null, enabled := False\<rparr>"
    and s2: "sentinels b2 = sentinels (sentinel_release ?n b1)"
    and i2: "intervals b2 = intervals (sentinel_release ?n b1)"
    and p2: "playing b2 = playing (sentinel_release ?n b1)"
    by (auto simp add: disable_native_Ref [OF n1 w1] removeListeners_def split: field.splits)
  have res: "active_resources b2 = active_resources b"
    by (simp add: active_resources_def active_sentinels_def s2 i2 p2 rel frame i1 p1)
  have dis2: "\<not> isEnabled this2" and w2: "wakeLock this2 = Null"
    by (simp_all add: t2 isEnabled_def)
  show ?thesis
    by (simp add: Native r1 r2 w1 en1 act1 dis2 w2 res s2 rel)
next
  case Legacy
  then have n: "\<not> isNativeWakeLockSupported b" and l: "isOldIOS b"
    by (simp_all add: strategy_of_def split: if_splits)
  obtain r0 b0 this0 where d0: "disable (b, this) = (r0, b0, this0)"
    by (cases "disable (b, this)") auto
  let ?k = "Suc (interval_count b0)"
  from disable_legacy [OF n l, of this] d0
  have s0: "sentinels b0 = sentinels b" and p0: "playing b0 = playing b"
    and i0: "length (intervals b0) \<le> length (intervals b)"
    by simp_all
  have caps0: "wakeLock_in_navigator b0 = wakeLock_in_navigator b \<and> old_ios b0 = old_ios b"
    using d0 n l
    by (auto simp: disable_def clearInterval_def console_put_def split: field.splits if_splits)
  from enable_legacy [OF n l d0, of Resolve] e
  have r1: "r1 = None"
    and b1: "b1 = b0\<lparr>console := console b0 @
            [Console_warn ''NoSleep enabled for older iOS devices. This can interrupt active network requests.''],
         interval_count := ?k,
         intervals := intervals b0 @ [(?k, 15000)]\<rparr>"
    and t1: "this1 = this0\<lparr>noSleepTimer := Ref ?k, enabled := True\<rparr>"
    by simp_all
  have n1: "\<not> isNativeWakeLockSupported b1" and l1: "isOldIOS b1"
    using n l caps0 by (simp_all add: b1 isNativeWakeLockSupported_def isOldIOS_def)
  have tm: "noSleepTimer this1 = Ref ?k" and en1: "isEnabled this1"
    by (simp_all add: t1 isEnabled_def)
  have c1: "interval_count b1 = ?k" and i1: "intervals b1 = intervals b0 @ [(?k, 15000)]"
    and s1: "sentinels b1 = sentinels b" and p1: "playing b1 = playing b"
    by (simp_all add: b1 s0 p0)
  from d disable_legacy_Ref [OF n1 l1 tm]
  have r2: "r2 = None" and t2: "this2 = this1\<lparr>noSleepTimer := Null, enabled := False\<rparr>"
    and b2: "b2 = b1\<lparr>console := console b1 @ [Console_warn ''NoSleep disabled for older iOS devices.''],
        intervals := filter (\<lambda>t. fst t \<noteq> ?k) (intervals b1)\<rparr>"
    by simp_all
  have i2: "intervals b2 = filter (\<lambda>t. fst t \<noteq> ?k) (intervals b0)"
    by (simp add: b2 i1)
  have len: "length (intervals b2) \<le> length (intervals b)"
    unfolding i2 by (rule le_trans [OF length_filter_le i0])
  have res: "active_resources b2 \<le> active_resources b"
    using len by (simp add: active_resources_def active_sentinels_def b2 s1 p1)
  have gone: "?k \<notin> fst ` set (intervals b2)"
    by (auto simp add: i2)
  have dis2: "\<not> isEnabled this2" and tm2: "noSleepTimer this2 = Null"
    by (simp_all add: t2 isEnabled_def)
  show ?thesis
    using res gone
    by (simp add: Legacy r1 r2 tm en1 c1 i1 dis2 tm2)
next
  case Media
  then have n: "\<not> isNativeWakeLockSupported b" and l: "\<not> isOldIOS b"
    by (simp_all add: strategy_of_def split: if_splits)
  from pop Media have el: "noSleepElement this = Ref ()" by simp
  from e enable_media_Resolve [OF n l el]
  have r1: "r1 = None" and b1: "b1 = b\<lparr>playing := True\<rparr>" and t1: "this1 = this\<lparr>enabled := True\<rparr>"
    by simp_all
  have n1: "\<not> isNativeWakeLockSupported b1" and l1: "\<not> isOldIOS b1"
    using n l by (simp_all add: b1 isNativeWakeLockSupported_def isOldIOS_def)
  have el1: "noSleepElement this1 = Ref ()"
    by (simp add: t1 el)
  from d disable_media [OF n1 l1 el1]
  have r2: "r2 = None" and b2: "b2 = b1\<lparr>playing := False\<rparr>" and t2: "this2 = this1\<lparr>enabled := False\<rparr>"
    by simp_all
  show ?thesis
    by (simp add: Media r1 r2 b1 b2 t1 t2 isEnabled_def active_resources_def active_sentinels_def)
qed

theorem enable_then_disable_leaves_nothing_witness:
  "populated (strategy_of (fst (constructor (fresh_page True False False ''https://example.org/''))))
     (snd (constructor (fresh_page True False False ''https://example.org/'')))
   \<and> \<not> isEnabled (snd (run [Enable Resolve, Disable]
         (constructor (fresh_page True False False ''https://example.org/''))))
   \<and> active_resources (fst (run [Enable Resolve, Disable]
         (constructor (fresh_page True False False ''https://example.org/'')))) = 0"
proof -
  let ?s = "constructor (fresh_page True False False ''https://example.org/'')"
  let ?e = "enable Resolve ?s"
  let ?d = "disable (snd ?e)"
  have h: "populated (strategy_of (fst ?s)) (snd ?s)"
    by (simp add: constructor_def fresh_page_def strategy_of_def platform_defs Let_def)
  have a0: "active_resources (fst ?s) = 0"
    by (simp add: constructor_def fresh_page_def active_resources_def active_sentinels_def
        platform_defs Let_def)
  have e: "enable Resolve (fst ?s, snd ?s) = (fst ?e, fst (snd ?e), snd (snd ?e))"
    by simp
  have d: "disable (fst (snd ?e), snd (snd ?e)) = (fst ?d, fst (snd ?d), snd (snd ?d))"
    by simp
  from enable_then_disable_leaves_nothing [OF h e d] h a0
  show ?thesis
    by simp
qed

section \<open>Resources along runs\<close>

text \<open>
  Claim C1, as the specification states it, fails under the native strategy. After a
  successful \<open>enable()\<close> and a release event of the platform, \<open>enabled\<close> is true while no
  resource is active; and after two successful \<open>enable()\<close> calls two sentinels hold the
  lock at the same time.
\<close>

theorem one_resource_counterexample:
  "isEnabled (snd (run [Enable Resolve, Release 0]
       (constructor (fresh_page True False False ''https://example.org/''))))
   \<and> active_resources (fst (run [Enable Resolve, Release 0]
       (constructor (fresh_page True False False ''https://example.org/'')))) = 0
   \<and> active_resources (fst (run [Enable Resolve, Enable Resolve]
       (constructor (fresh_page True False False ''https://example.org/'')))) = 2"
  by (simp add: isEnabled_def platform_release_def enable_def enableWakeLock_def constructor_def
      fresh_page_def active_resources_def active_sentinels_def platform_defs Let_def)

text \<open>
  Claim C1, amended. For an instance built on a fresh page and every sequence of
  \<open>enable()\<close> and \<open>disable()\<close> calls, release events, visibility transitions and timer
  ticks during which the capability answers stay as they were at construction: only
  resources of the strategy's own kind are ever active. Under the legacy strategy at
  most one timer runs, and \<open>enabled\<close> is true if and only if it runs. Under the media
  strategy \<open>enabled\<close> implies that the media is playing. Under the native strategy
  \<open>enabled\<close> implies only that a handle to an acquired sentinel is stored: that sentinel
  may have been released by the platform, and sentinels of earlier calls may still hold
  the lock.
\<close>

theorem resources_along_runs:
  assumes "list_all (\<lambda>e. \<not> changes_capabilities e) evs"
    and "run evs (constructor (fresh_page n l h u)) = (b, this)"
  shows "resource_invariant (strategy_of (fresh_page n l h u)) (b, this)
       \<and> (strategy_of (fresh_page n l h u) = Legacy \<longrightarrow>
            active_resources b \<le> 1 \<and> (isEnabled this \<longleftrightarrow> active_resources b = 1))
       \<and> (strategy_of (fresh_page n l h u) = Media \<longrightarrow>
            active_resources b \<le> 1 \<and> (isEnabled this \<longrightarrow> active_resources b = 1))
       \<and> (strategy_of (fresh_page n l h u) = Native \<longrightarrow>
            active_resources b = active_sentinels b)"
proof -
  let ?st = "strategy_of (fresh_page n l h u)"
  have c: "consistent ?st (b, this)"
    using run_consistent [OF assms(1) constructor_consistent [of n l h u]] assms(2) by simp
  then have inv: "resource_invariant ?st (b, this)"
    by (simp add: consistent_def)
  have leg: "?st = Legacy \<longrightarrow>
      active_resources b \<le> 1 \<and> (isEnabled this \<longleftrightarrow> active_resources b = 1)"
    using inv
    by (auto simp add: resource_invariant_def active_resources_def active_sentinels_def
          isEnabled_def split: field.splits if_splits)
  have med: "?st = Media \<longrightarrow>
      active_resources b \<le> 1 \<and> (isEnabled this \<longrightarrow> active_resources b = 1)"
    using inv
    by (auto simp add: resource_invariant_def active_resources_def active_sentinels_def
          isEnabled_def)
  have nat: "?st = Native \<longrightarrow> active_resources b = active_sentinels b"
    using inv
    by (auto simp add: resource_invariant_def active_resources_def)
  show ?thesis
    using inv leg med nat by blast
qed

theorem resources_along_runs_witness:
  "list_all (\<lambda>e. \<not> changes_capabilities e)
     [Enable Resolve, Tick 1, Enable Resolve, Hidden, Tick 2]
   \<and> strategy_of (fresh_page False True False ''https://example.org/#a'') = Legacy
   \<and> isEnabled (snd (run [Enable Resolve, Tick 1, Enable Resolve, Hidden, Tick 2]
        (constructor (fresh_page False True False ''https://example.org/#a''))))
   \<and> active_resources (fst (run [Enable Resolve, Tick 1, Enable Resolve, Hidden, Tick 2]
        (constructor (fresh_page False True False ''https://example.org/#a'')))) = 1"
proof -
  let ?evs = "[Enable Resolve, Tick 1, Enable Resolve, Hidden, Tick 2]"
  let ?s = "run ?evs (constructor (fresh_page False True False ''https://example.org/#a''))"
  have h1: "list_all (\<lambda>e. \<not> changes_capabilities e) ?evs"
    by simp
  have h2: "?s = (fst ?s, snd ?s)"
    by simp
  have st: "strategy_of (fresh_page False True False ''https://example.org/#a'') = Legacy"
    by (simp add: strategy_of_def fresh_page_def platform_defs)
  have en: "isEnabled (snd ?s)"
    by (simp add: isEnabled_def enable_def enableOldIOS_def disable_def interval_tick_def
        noSleepTick_def visibility_change_def constructor_def fresh_page_def platform_defs
        Let_def)
  from resources_along_runs [OF h1 h2] h1 st en
  show ?thesis
    by blast
qed

section \<open>Dispatch\<close>

text \<open>
  Claim C2, as the specification states it, fails: the capability predicates are
  evaluated again in every call. An instance built under the native strategy, on a page
  whose answers then change, starts the legacy timer and requests no lock when
  \<open>enable()\<close> is called; and when neither predicate holds any more, \<open>disable()\<close> goes to
  the media branch and throws for want of a media element.
\<close>

theorem dispatch_counterexample:
  "strategy_of (fresh_page True False False ''https://example.org/'') = Native
   \<and> sentinels (fst (run [Capabilities False True, Enable Resolve]
        (constructor (fresh_page True False False ''https://example.org/'')))) = []
   \<and> intervals (fst (run [Capabilities False True, Enable Resolve]
        (constructor (fresh_page True False False ''https://example.org/'')))) = [(1, 15000)]
   \<and> fst (disable (run [Capabilities False False]
        (constructor (fresh_page True False False ''https://example.org/''))))
      = Some (type_error ''pause'')"
  by (simp add: strategy_of_def enable_def enableOldIOS_def disable_def constructor_def
      fresh_page_def platform_defs Let_def)

text \<open>
  Claim C2, amended. The capability predicates are evaluated at construction and again
  in every \<open>enable()\<close> and \<open>disable()\<close> call; the instance stores no strategy. In every
  state, however the instance was built, \<open>enable()\<close> runs the branch and \<open>disable()\<close> the
  cleanup of the strategy that the answers of that moment select: the native cleanup
  clears the handle and removes the visibility listeners, the legacy cleanup clears the
  held timer, the media cleanup pauses the media element or, without one, throws a
  \<open>TypeError\<close>. No operation of the instance and no event of the page other than a
  change of the environment alters the answers: as long as they stay the same, every
  call dispatches through the strategy chosen at construction and \<open>disable()\<close> does not
  fail; after a change, the calls follow the new answers.
\<close>

theorem dispatch_follows_current_answers:
  "enable r s =
     (case strategy_of (fst s) of
        Native \<Rightarrow> enableWakeLock r s
      | Legacy \<Rightarrow> enableOldIOS s
      | Media \<Rightarrow> enableVideoPlayback r s)
   \<and> (case strategy_of (fst s) of
        Native \<Rightarrow>
          fst (disable s) = None
          \<and> wakeLock (snd (snd (disable s))) = Null
          \<and> \<not> enabled (snd (snd (disable s)))
          \<and> (visibilityListener (snd s) = Ref () \<longrightarrow>
               \<not> visibility_listening (fst (snd (disable s))))
          \<and> intervals (fst (snd (disable s))) = intervals (fst s)
          \<and> playing (fst (snd (disable s))) = playing (fst s)
      | Legacy \<Rightarrow>
          fst (disable s) = None
          \<and> \<not> enabled (snd (snd (disable s)))
          \<and> intervals (fst (snd (disable s))) =
              (case noSleepTimer (snd s) of
                 Ref i \<Rightarrow> if i \<noteq> 0 then filter (\<lambda>t. fst t \<noteq> i) (intervals (fst s))
                          else intervals (fst s)
               | _ \<Rightarrow> intervals (fst s))
          \<and> wakeLock (snd (snd (disable s))) = wakeLock (snd s)
          \<and> sentinels (fst (snd (disable s))) = sentinels (fst s)
          \<and> playing (fst (snd (disable s))) = playing (fst s)
      | Media \<Rightarrow>
          (if noSleepElement (snd s) = Ref ()
           then fst (disable s) = None \<and> \<not> playing (fst (snd (disable s)))
                \<and> \<not> enabled (snd (snd (disable s)))
           else disable s = (Some (type_error ''pause''), s))
          \<and> wakeLock (snd (snd (disable s))) = wakeLock (snd s)
          \<and> sentinels (fst (snd (disable s))) = sentinels (fst s)
          \<and> intervals (fst (snd (disable s))) = intervals (fst s))
   \<and> strategy_of (fst (constructor b0)) = strategy_of b0
   \<and> (list_all (\<lambda>e. \<not> changes_capabilities e) evs \<longrightarrow>
        strategy_of (fst (run evs s)) = strategy_of (fst s)
        \<and> strategy_of (fst (run evs (constructor b0))) = strategy_of b0
        \<and> fst (disable (run evs (constructor b0))) = None
        \<and> strategy_of (fst (run (Capabilities n l # evs) s)) =
            (if n then Native else if l then Legacy else Media))"
proof -
  have en: "enable r s =
     (case strategy_of (fst s) of
        Native \<Rightarrow> enableWakeLock r s
      | Legacy \<Rightarrow> enableOldIOS s
      | Media \<Rightarrow> enableVideoPlayback r s)"
    by (simp add: enable_def strategy_of_def)
  have dis: "case strategy_of (fst s) of
        Native \<Rightarrow>
          fst (disable s) = None
          \<and> wakeLock (snd (snd (disable s))) = Null
          \<and> \<not> enabled (snd (snd (disable s)))
          \<and> (visibilityListener (snd s) = Ref () \<longrightarrow>
               \<not> visibility_listening (fst (snd (disable s))))
          \<and> intervals (fst (snd (disable s))) = intervals (fst s)
          \<and> playing (fst (snd (disable s))) = playing (fst s)
      | Legacy \<Rightarrow>
          fst (disable s) = None
          \<and> \<not> enabled (snd (snd (disable s)))
          \<and> intervals (fst (snd (disable s))) =
              (case noSleepTimer (snd s) of
                 Ref i \<Rightarrow> if i \<noteq> 0 then filter (\<lambda>t. fst t \<noteq> i) (intervals (fst s))
                          else intervals (fst s)
               | _ \<Rightarrow> intervals (fst s))
          \<and> wakeLock (snd (snd (disable s))) = wakeLock (snd s)
          \<and> sentinels (fst (snd (disable s))) = sentinels (fst s)
          \<and> playing (fst (snd (disable s))) = playing (fst s)
      | Media \<Rightarrow>
          (if noSleepElement (snd s) = Ref ()
           then fst (disable s) = None \<and> \<not> playing (fst (snd (disable s)))
                \<and> \<not> enabled (snd (snd (disable s)))
           else disable s = (Some (type_error ''pause''), s))
          \<and> wakeLock (snd (snd (disable s))) = wakeLock (snd s)
          \<and> sentinels (fst (snd (disable s))) = sentinels (fst s)
          \<and> intervals (fst (snd (disable s))) = intervals (fst s)"
  proof (cases "strategy_of (fst s)")
    case Native
    then have "isNativeWakeLockSupported (fst s)"
      by (simp add: strategy_of_simps)
    from disable_native_effects [OF this] show ?thesis
      by (simp add: Native)
  next
    case Legacy
    then have "\<not> isNativeWakeLockSupported (fst s)" and "isOldIOS (fst s)"
      by (simp_all add: strategy_of_simps)
    from disable_legacy_effects [OF this] show ?thesis
      by (simp add: Legacy)
  next
    case Media
    then have "\<not> isNativeWakeLockSupported (fst s)" and "\<not> isOldIOS (fst s)"
      by (simp_all add: strategy_of_simps)
    from disable_media_effects [OF this] show ?thesis
      by (simp add: Media)
  qed
  have con: "strategy_of (fst (constructor b0)) = strategy_of b0"
    by (simp add: constructor_frame)
  have runs: "strategy_of (fst (run evs s)) = strategy_of (fst s)
        \<and> strategy_of (fst (run evs (constructor b0))) = strategy_of b0
        \<and> fst (disable (run evs (constructor b0))) = None
        \<and> strategy_of (fst (run (Capabilities n l # evs) s)) =
            (if n then Native else if l then Legacy else Media)"
    if h: "list_all (\<lambda>e. \<not> changes_capabilities e) evs"
  proof -
    have a: "strategy_of (fst (run evs s)) = strategy_of (fst s)"
      by (rule run_strategy [OF h])
    have b: "strategy_of (fst (run evs (constructor b0))) = strategy_of b0"
      using run_constructor_element [OF h, of b0] by simp
    have c: "fst (disable (run evs (constructor b0))) = None"
      using run_constructor_element [OF h, of b0]
        disable_fails_iff [of "fst (run evs (constructor b0))" "snd (run evs (constructor b0))"]
      by simp
    have d: "strategy_of (fst (run (Capabilities n l # evs) s)) =
            (if n then Native else if l then Legacy else Media)"
      using run_strategy [OF h, of "step (Capabilities n l) s"] capabilities_strategy [of n l s]
      by simp
    show ?thesis
      by (intro conjI) (fact a b c d)+
  qed
  show ?thesis
    by (rule conjI [OF en conjI [OF dis conjI [OF con impI [OF runs]]]])
qed

theorem dispatch_follows_current_answers_witness:
  "list_all (\<lambda>e. \<not> changes_capabilities e) [Enable Resolve, Hidden, Visible Resolve]
   \<and> strategy_of (fst (run [Enable Resolve, Hidden, Visible Resolve]
        (constructor (fresh_page True False False ''https://example.org/''))))
      = strategy_of (fresh_page True False False ''https://example.org/'')
   \<and> fst (disable (run [Enable Resolve, Hidden, Visible Resolve]
        (constructor (fresh_page True False False ''https://example.org/'')))) = None
   \<and> strategy_of (fst (run (Capabilities False True # [Enable Resolve, Hidden, Visible Resolve])
        (constructor (fresh_page True False False ''https://example.org/'')))) = Legacy
   \<and> enable Resolve (step (Capabilities False True)
        (constructor (fresh_page True False False ''https://example.org/'')))
      = enableOldIOS (step (Capabilities False True)
        (constructor (fresh_page True False False ''https://example.org/'')))
   \<and> visibilityListener (snd (constructor (fresh_page True False False ''https://example.org/'')))
      = Ref ()
   \<and> \<not> visibility_listening (fst (snd (disable
        (constructor (fresh_page True False False ''https://example.org/'')))))"
proof -
  let ?b0 = "fresh_page True False False ''https://example.org/''"
  let ?evs = "[Enable Resolve, Hidden, Visible Resolve]"
  let ?s = "constructor ?b0"
  let ?s' = "step (Capabilities False True) ?s"
  have h: "list_all (\<lambda>e. \<not> changes_capabilities e) ?evs"
    by simp
  have st': "strategy_of (fst ?s') = Legacy"
    by (simp add: strategy_of_def isNativeWakeLockSupported_def isOldIOS_def)
  have st: "strategy_of (fst ?s) = Native" and v: "visibilityListener (snd ?s) = Ref ()"
    by (simp_all add: constructor_def fresh_page_def strategy_of_def platform_defs Let_def)
  note i1 = dispatch_follows_current_answers [of Resolve ?s' ?b0 ?evs False True]
  note i2 = dispatch_follows_current_answers [of Resolve ?s ?b0 ?evs False True]
  have a: "strategy_of (fst (run ?evs ?s)) = strategy_of ?b0"
    and b: "fst (disable (run ?evs ?s)) = None"
    and c: "strategy_of (fst (run (Capabilities False True # ?evs) ?s)) = Legacy"
    using i2 h by (simp_all del: run.simps step.simps)
  have d: "enable Resolve ?s' = enableOldIOS ?s'"
    using i1 st' by (simp del: step.simps)
  have e: "\<not> visibility_listening (fst (snd (disable ?s)))"
    using i2 st v by (simp del: run.simps step.simps)
  show ?thesis
    by (intro conjI) (fact h a b c d v e)+
qed

section \<open>The visibility subscription\<close>

text \<open>
  Claim C4, as the specification states it, fails: \<open>enable()\<close> registers nothing. After a
  \<open>disable()\<close>, a successful \<open>enable()\<close> leaves the instance enabled with no visibility
  subscription, and a later transition to visible requests no lock.
\<close>

theorem visibility_registration_counterexample:
  "isEnabled (snd (run [Disable, Enable Resolve]
       (constructor (fresh_page True False False ''https://example.org/''))))
   \<and> \<not> visibility_listening (fst (run [Disable, Enable Resolve]
       (constructor (fresh_page True False False ''https://example.org/''))))
   \<and> length (sentinels (fst (run [Disable, Enable Resolve, Hidden, Visible Resolve]
       (constructor (fresh_page True False False ''https://example.org/''))))) = 1"
  by (simp add: isEnabled_def visibility_change_def enable_def enableWakeLock_def disable_def
      constructor_def fresh_page_def platform_defs Let_def)

text \<open>
  Claim C4, amended. Under the native strategy the constructor registers the Visibility
  Notifier, once; \<open>enable()\<close> neither registers nor unregisters it, whatever the outcome
  of the call; every \<open>disable()\<close> of an instance that has its notifier unregisters it.
  Registration and deregistration are not symmetric across \<open>enable()\<close> and \<open>disable()\<close>.
\<close>

theorem visibility_registration:
  "(isNativeWakeLockSupported b \<longrightarrow> visibility_listening (fst (constructor b)))
   \<and> visibility_listening (fst (snd (enable r s))) = visibility_listening (fst s)
   \<and> (isNativeWakeLockSupported (fst s) \<longrightarrow> visibilityListener (snd s) = Ref () \<longrightarrow>
        \<not> visibility_listening (fst (snd (disable s))))"
  using disable_native_not_listening [of s]
  by (simp add: enable_listening constructor_def VisibilityListener_new_def Let_def)

theorem visibility_registration_witness:
  "isNativeWakeLockSupported (fresh_page True False False ''https://example.org/'')
   \<and> isNativeWakeLockSupported (fst (constructor (fresh_page True False False ''https://example.org/'')))
   \<and> visibilityListener (snd (constructor (fresh_page True False False ''https://example.org/''))) = Ref ()
   \<and> visibility_listening (fst (constructor (fresh_page True False False ''https://example.org/'')))
   \<and> visibility_listening (fst (snd (enable Resolve
        (constructor (fresh_page True False False ''https://example.org/'')))))
   \<and> \<not> visibility_listening (fst (snd (disable
        (constructor (fresh_page True False False ''https://example.org/'')))))"
proof -
  let ?b = "fresh_page True False False ''https://example.org/''"
  have h1: "isNativeWakeLockSupported ?b"
    by (simp add: fresh_page_def platform_defs)
  have h2: "isNativeWakeLockSupported (fst (constructor ?b))"
    by (simp add: constructor_def fresh_page_def platform_defs Let_def)
  have h3: "visibilityListener (snd (constructor ?b)) = Ref ()"
    by (simp add: constructor_def fresh_page_def platform_defs Let_def)
  from visibility_registration [of ?b Resolve "constructor ?b"] h1 h2 h3
  show ?thesis
    by simp
qed

text \<open>
  Claim C9. Under the native strategy the visibility callback, which is \<open>enable\<close>, is
  installed in the constructor, before any \<open>enable()\<close> call: a transition to visible on a
  freshly built instance runs \<open>enable()\<close>, and acquires a lock when the platform grants it,
  although the caller never called \<open>enable()\<close>. Once a \<open>disable()\<close> has removed the
  listeners, nothing installs them again, whatever is called or happens afterwards: a
  transition to visible then only changes the visibility of the page.
\<close>

theorem visibility_callback_installed_once:
  assumes "list_all (\<lambda>e. \<not> changes_capabilities e) evs1"
  shows "visibility_listening (fst (constructor (fresh_page True l h u)))
       \<and> step (Visible r) (constructor (fresh_page True l h u)) =
           snd (enable r ((fst (constructor (fresh_page True l h u)))\<lparr>hidden := False\<rparr>,
                          snd (constructor (fresh_page True l h u))))
       \<and> isEnabled (snd (step (Visible Resolve) (constructor (fresh_page True l h u))))
       \<and> \<not> visibility_listening
             (fst (run (evs1 @ Disable # evs2) (constructor (fresh_page True l h u))))
       \<and> step (Visible r) (run (evs1 @ Disable # evs2) (constructor (fresh_page True l h u))) =
           ((fst (run (evs1 @ Disable # evs2) (constructor (fresh_page True l h u))))
              \<lparr>hidden := False\<rparr>,
            snd (run (evs1 @ Disable # evs2) (constructor (fresh_page True l h u))))"
proof -
  let ?s0 = "constructor (fresh_page True l h u)"
  let ?s1 = "run evs1 ?s0"
  let ?s2 = "run (evs1 @ Disable # evs2) ?s0"
  have st: "strategy_of (fresh_page True l h u) = Native"
    by (simp add: strategy_of_def fresh_page_def isNativeWakeLockSupported_def)
  have on: "visibility_listening (fst ?s0)"
    by (simp add: constructor_def fresh_page_def platform_defs Let_def)
  have vis: "step (Visible r) ?s0 = snd (enable r ((fst ?s0)\<lparr>hidden := False\<rparr>, snd ?s0))"
    for r
    using on by (simp add: visibility_change_def Let_def)
  have nat0: "isNativeWakeLockSupported ((fst ?s0)\<lparr>hidden := False\<rparr>)"
    by (simp add: constructor_def fresh_page_def platform_defs Let_def)
  have en: "isEnabled (snd (step (Visible Resolve) ?s0))"
    unfolding vis by (simp add: enable_native_Resolve [OF nat0] isEnabled_def)
  have c1: "consistent Native ?s1"
    using run_consistent [OF assms constructor_consistent [of True l h u]] st by simp
  then have n1: "isNativeWakeLockSupported (fst ?s1)" and v1: "visibilityListener (snd ?s1) = Ref ()"
    by (simp_all add: consistent_def strategy_of_simps)
  have split: "?s2 = run evs2 (snd (disable ?s1))"
    by (simp add: run_append)
  have off: "\<not> visibility_listening (fst ?s2)"
    unfolding split
    using disable_native_not_listening [OF n1 v1] by (simp add: run_keeps_not_listening)
  have quiet: "step (Visible r) ?s2 = ((fst ?s2)\<lparr>hidden := False\<rparr>, snd ?s2)"
    using off by (simp add: visibility_change_def Let_def)
  show ?thesis
    using on vis [of r] en off quiet by blast
qed

theorem visibility_callback_installed_once_witness:
  "list_all (\<lambda>e. \<not> changes_capabilities e) [Enable Resolve, Release 0]
   \<and> isEnabled (snd (step (Visible Resolve)
        (constructor (fresh_page True False True ''https://example.org/''))))
   \<and> \<not> visibility_listening
         (fst (run ([Enable Resolve, Release 0] @ Disable # [Enable Resolve, Hidden])
            (constructor (fresh_page True False True ''https://example.org/''))))"
proof -
  have h: "list_all (\<lambda>e. \<not> changes_capabilities e) [Enable Resolve, Release 0]"
    by simp
  from visibility_callback_installed_once [OF h, of False True "''https://example.org/''" Resolve
      "[Enable Resolve, Hidden]"] h
  show ?thesis
    by blast
qed

end
